theory Spec2Isabelle
  imports Main
begin

text \<open>
  The repository holds three serverless request handlers: a Zoom registration handler
  that obtains an OAuth token on demand (\<open>src/api/register-zoom.js\<close>), an earlier
  variant of it that reads a static token from the environment, and a relay to a Zoho
  webhook (both in \<open>src/unnamed/part_000\<close>). Each handler is modelled as a function
  from its environment, the behaviour of \<open>fetch\<close> and the request to the list of what
  it does: its upstream calls and its response, in order. What \<open>fetch\<close> returns, what
  \<open>text()\<close> and \<open>json()\<close> return and what they throw are arguments of the model.

  Values are typed as the specification's data model types them: a property of the
  request body, of the environment or of an upstream payload is a string or absent, and
  the occurrences of a meeting are objects with an \<open>occurrence_id\<close> and a
  \<open>start_time\<close>.
\<close>

section \<open>Strings of the JavaScript runtime\<close>

text \<open>
  A \<open>string\<close> stands for a JavaScript string whose code units are all below 256, one
  \<open>char\<close> per code unit. Among these, the characters that \<open>String.prototype.trim\<close>
  strips and that the regular expression class \<open>\s\<close> matches are the same seven:
  TAB, LF, VT, FF, CR, SPACE and NO-BREAK SPACE.
\<close>

definition isWhiteSpace :: "char \<Rightarrow> bool" where
  "isWhiteSpace c =
     (c \<in> set [CHR 0x09, CHR 0x0A, CHR 0x0B, CHR 0x0C, CHR 0x0D, CHR 0x20, CHR 0xA0])"

definition trim :: "string \<Rightarrow> string" where
  \<comment> \<open>\<open>s.trim()\<close>\<close>
  "trim s = rev (dropWhile isWhiteSpace (rev (dropWhile isWhiteSpace s)))"

function split_ws :: "string \<Rightarrow> string list" where
  \<comment> \<open>\<open>s.split(/\s+/)\<close>: every maximal run of whitespace is one separator; a separator at
      the start or at the end leaves an empty string there, and the empty string splits
      into one empty string.\<close>
  "split_ws s =
     (if dropWhile (\<lambda>c. \<not> isWhiteSpace c) s = [] then [s]
      else takeWhile (\<lambda>c. \<not> isWhiteSpace c) s
             # split_ws (dropWhile isWhiteSpace (dropWhile (\<lambda>c. \<not> isWhiteSpace c) s)))"
  by pat_completeness auto
termination
proof (relation "measure length")
  show "wf (measure length)" by simp
next
  fix s :: string
  assume ne: "dropWhile (\<lambda>c. \<not> isWhiteSpace c) s \<noteq> []"
  have "length (dropWhile isWhiteSpace (dropWhile (\<lambda>c. \<not> isWhiteSpace c) s))
          < length (dropWhile (\<lambda>c. \<not> isWhiteSpace c) s)"
  proof (cases "dropWhile (\<lambda>c. \<not> isWhiteSpace c) s")
    case Nil
    with ne show ?thesis by simp
  next
    case (Cons c cs)
    then have "isWhiteSpace c"
      using hd_dropWhile [of "\<lambda>c. \<not> isWhiteSpace c" s] by auto
    then show ?thesis
      using Cons length_dropWhile_le [of isWhiteSpace cs] by simp
  qed
  also have "\<dots> \<le> length s"
    by (rule length_dropWhile_le)
  finally show "(dropWhile isWhiteSpace (dropWhile (\<lambda>c. \<not> isWhiteSpace c) s), s)
                  \<in> measure length"
    by simp
qed

declare split_ws.simps [simp del]

fun join :: "string \<Rightarrow> string list \<Rightarrow> string" where
  \<comment> \<open>\<open>parts.join(sep)\<close>\<close>
  "join sep [] = []"
| "join sep [p] = p"
| "join sep (p # q # ps) = p @ sep @ join sep (q # ps)"

definition or_empty :: "string \<Rightarrow> string" where
  \<comment> \<open>\<open>s || ''\<close> on a string: the empty string is the only falsy one\<close>
  "or_empty s = (if s = [] then [] else s)"

subsection \<open>The name split of both Zoom handlers\<close>

text \<open>
  \<^verbatim>\<open>
  const nameParts = String(fullName).trim().split(/\s+/);
  const first_name = nameParts[0] || '';
  const last_name = nameParts.slice(1).join(' ') || '';
  \<close>
  On a string, \<open>String(fullName)\<close> is \<open>fullName\<close>, so the static-token variant's
  \<open>fullName.trim()\<close> is the same expression. An index out of range reads \<open>undefined\<close>,
  which \<open>|| ''\<close> turns into the empty string.
\<close>

definition nameParts :: "string \<Rightarrow> string list" where
  "nameParts fullName = split_ws (trim fullName)"

definition first_name :: "string \<Rightarrow> string" where
  "first_name fullName =
     (case nameParts fullName of [] \<Rightarrow> [] | p # _ \<Rightarrow> or_empty p)"

definition last_name :: "string \<Rightarrow> string" where
  "last_name fullName = or_empty (join '' '' (drop 1 (nameParts fullName)))"


subsection \<open>The name split as the specification words it\<close>

text \<open>
  The specification speaks of whitespace-delimited tokens: the maximal runs of
  characters that are not whitespace. The first token is the first name, the remaining
  tokens joined with single spaces are the last name, and a string without any token
  gives two empty names.
\<close>

function spec_tokens :: "string \<Rightarrow> string list" where
  "spec_tokens s =
     (case dropWhile isWhiteSpace s of
        [] \<Rightarrow> []
      | c # cs \<Rightarrow> (c # takeWhile (\<lambda>c. \<not> isWhiteSpace c) cs)
                   # spec_tokens (dropWhile (\<lambda>c. \<not> isWhiteSpace c) cs))"
  by pat_completeness auto
termination
proof (relation "measure length")
  show "wf (measure length)" by simp
next
  fix s :: string and c cs
  assume eq: "dropWhile isWhiteSpace s = c # cs"
  have "length (dropWhile (\<lambda>c. \<not> isWhiteSpace c) cs) \<le> length cs"
    by (rule length_dropWhile_le)
  also have "\<dots> < length (dropWhile isWhiteSpace s)"
    by (simp add: eq)
  also have "\<dots> \<le> length s"
    by (rule length_dropWhile_le)
  finally show "(dropWhile (\<lambda>c. \<not> isWhiteSpace c) cs, s) \<in> measure length"
    by simp
qed

declare spec_tokens.simps [simp del]

definition spec_first_name :: "string \<Rightarrow> string" where
  "spec_first_name fullName =
     (case spec_tokens (trim fullName) of [] \<Rightarrow> [] | t # _ \<Rightarrow> t)"

definition spec_last_name :: "string \<Rightarrow> string" where
  "spec_last_name fullName = join '' '' (drop 1 (spec_tokens (trim fullName)))"

subsection \<open>Properties that hold a string or are undefined\<close>

text \<open>
  The request body, the environment and the upstream payloads are read property by
  property. A property is modelled as \<open>string option\<close>: \<open>None\<close> is \<open>undefined\<close> (the
  property is absent), \<open>Some s\<close> is the string \<open>s\<close>.
\<close>

definition truthy :: "string option \<Rightarrow> bool" where
  \<comment> \<open>\<open>undefined\<close> and the empty string are falsy\<close>
  "truthy v = (case v of None \<Rightarrow> False | Some s \<Rightarrow> s \<noteq> [])"

definition toStr :: "string option \<Rightarrow> string" where
  \<comment> \<open>\<open>String(v)\<close>, also what a template literal and \<open>encodeURIComponent\<close> apply\<close>
  "toStr v = (case v of None \<Rightarrow> ''undefined'' | Some s \<Rightarrow> s)"

definition or_else :: "string option \<Rightarrow> string option \<Rightarrow> string option" where
  \<comment> \<open>\<open>a || b\<close>\<close>
  "or_else a b = (if truthy a then a else b)"

definition or_default :: "string \<Rightarrow> string \<Rightarrow> string" where
  \<comment> \<open>\<open>s || d\<close> on a string \<open>s\<close>\<close>
  "or_default s d = (if s = [] then d else s)"

function decimal :: "nat \<Rightarrow> string" where
  \<comment> \<open>the digits a template literal prints for a non-negative integer\<close>
  "decimal n =
     (if n < 10 then [''0123456789'' ! n]
      else decimal (n div 10) @ [''0123456789'' ! (n mod 10)])"
  by pat_completeness auto
termination
  by (relation "measure id") auto

declare decimal.simps [simp del]

subsection \<open>\<open>encodeURIComponent\<close> and Base64\<close>

definition utf8 :: "char \<Rightarrow> nat list" where
  \<comment> \<open>the UTF-8 bytes of a code point below 256\<close>
  "utf8 c =
     (let n = (of_char c :: nat)
      in if n < 128 then [n] else [192 + n div 64, 128 + n mod 64])"

definition uriUnreserved :: "char \<Rightarrow> bool" where
  "uriUnreserved c =
     (c \<in> set ''ABCDEFGHIJKLMNOPQRSTUVWXYZabcdefghijklmnopqrstuvwxyz0123456789-_.!~*()''
      \<or> c = CHR 0x27)"

definition percent :: "nat \<Rightarrow> string" where
  "percent b =
     [CHR ''%'', ''0123456789ABCDEF'' ! (b div 16), ''0123456789ABCDEF'' ! (b mod 16)]"

definition encodeURIComponent :: "string \<Rightarrow> string" where
  "encodeURIComponent s =
     concat (map (\<lambda>c. if uriUnreserved c then [c] else concat (map percent (utf8 c))) s)"

definition base64Alphabet :: string where
  "base64Alphabet =
     ''ABCDEFGHIJKLMNOPQRSTUVWXYZabcdefghijklmnopqrstuvwxyz0123456789+/''"

fun base64Bytes :: "nat list \<Rightarrow> string" where
  "base64Bytes (a # b # c # bs) =
     [base64Alphabet ! (a div 4), base64Alphabet ! ((a mod 4) * 16 + b div 16),
      base64Alphabet ! ((b mod 16) * 4 + c div 64), base64Alphabet ! (c mod 64)]
     @ base64Bytes bs"
| "base64Bytes [a, b] =
     [base64Alphabet ! (a div 4), base64Alphabet ! ((a mod 4) * 16 + b div 16),
      base64Alphabet ! ((b mod 16) * 4), CHR ''='']"
| "base64Bytes [a] =
     [base64Alphabet ! (a div 4), base64Alphabet ! ((a mod 4) * 16), CHR ''='', CHR ''='']"
| "base64Bytes [] = []"

definition base64 :: "string \<Rightarrow> string" where
  \<comment> \<open>\<open>Buffer.from(s).toString('base64')\<close>\<close>
  "base64 s = base64Bytes (concat (map utf8 s))"


section \<open>Numbers and time values\<close>

text \<open>
  The only numbers of the handlers are time values, their differences, the constant
  \<open>MAX_DIFF_MS\<close> and \<open>Infinity\<close>. A number is \<open>NaN\<close>, an infinity, or a double
  whose value is an integer. A time value is an integer of magnitude at most
  \<open>8.64e15\<close>, so a difference of two time values stays below \<open>2^54\<close>: up to \<open>2^53\<close>
  every integer is a double, and from there to \<open>2^54\<close> the doubles are the even
  integers, those divisible by 4 having the even significand that wins a tie.
\<close>

datatype num = NaN | PosInf | NegInf | Fin int

definition toDouble :: "int \<Rightarrow> int" where
  \<comment> \<open>round to nearest, ties to even, for a magnitude below \<open>2^54\<close>\<close>
  "toDouble x =
     (if \<bar>x\<bar> \<le> 2 ^ 53 \<or> even x then x
      else if 4 dvd (x + 1) then x + 1 else x - 1)"

fun js_sub :: "num \<Rightarrow> num \<Rightarrow> num" where
  \<comment> \<open>\<open>a - b\<close>\<close>
  "js_sub (Fin a) (Fin b) = Fin (toDouble (a - b))"
| "js_sub NaN _ = NaN"
| "js_sub _ NaN = NaN"
| "js_sub PosInf PosInf = NaN"
| "js_sub NegInf NegInf = NaN"
| "js_sub PosInf _ = PosInf"
| "js_sub NegInf _ = NegInf"
| "js_sub (Fin a) PosInf = NegInf"
| "js_sub (Fin a) NegInf = PosInf"

fun js_abs :: "num \<Rightarrow> num" where
  \<comment> \<open>\<open>Math.abs(a)\<close>\<close>
  "js_abs (Fin a) = Fin \<bar>a\<bar>"
| "js_abs NaN = NaN"
| "js_abs PosInf = PosInf"
| "js_abs NegInf = PosInf"

fun js_lt :: "num \<Rightarrow> num \<Rightarrow> bool" where
  \<comment> \<open>\<open>a < b\<close>: false whenever an operand is \<open>NaN\<close>\<close>
  "js_lt (Fin a) (Fin b) = (a < b)"
| "js_lt NaN _ = False"
| "js_lt _ NaN = False"
| "js_lt PosInf _ = False"
| "js_lt _ NegInf = False"
| "js_lt NegInf _ = True"
| "js_lt (Fin a) PosInf = True"

definition js_gt :: "num \<Rightarrow> num \<Rightarrow> bool" where
  \<comment> \<open>\<open>a > b\<close>\<close>
  "js_gt a b = js_lt b a"

fun isFinite :: "num \<Rightarrow> bool" where
  \<comment> \<open>\<open>Number.isFinite(a)\<close>\<close>
  "isFinite (Fin a) = True"
| "isFinite _ = False"

definition getTime :: "(string \<Rightarrow> int option) \<Rightarrow> string option \<Rightarrow> num" where
  \<comment> \<open>\<open>new Date(v).getTime()\<close>. The first argument is \<open>Date.parse\<close>, whose accepted
      formats depend on the engine: \<open>None\<close> where it gives \<open>NaN\<close>. The Date constructor
      clips the parsed value to the range of time values, and \<open>new Date(undefined)\<close> is
      an invalid date.\<close>
  "getTime parse v =
     (case v of
        None \<Rightarrow> NaN
      | Some s \<Rightarrow>
          (case parse s of
             None \<Rightarrow> NaN
           | Some t \<Rightarrow> if \<bar>t\<bar> > 8640000000000000 then NaN else Fin t))"

section \<open>Occurrence matching\<close>

record occurrence =
  occurrence_id :: "string option"
  start_time :: "string option"

text \<open>
  The loop of \<open>src/api/register-zoom.js\<close>, with its two variables as the accumulator:
  \<^verbatim>\<open>
  for (const occ of occurrences) {
    const occTime = new Date(occ.start_time).getTime();
    if (!Number.isFinite(occTime)) continue;
    const diff = Math.abs(occTime - targetTime);
    if (diff < bestDiff) { bestDiff = diff; bestOccurrence = occ; }
  }
  \<close>
\<close>

fun matchLoop ::
  "(string \<Rightarrow> int option) \<Rightarrow> num \<Rightarrow> occurrence list
     \<Rightarrow> occurrence option \<times> num \<Rightarrow> occurrence option \<times> num" where
  "matchLoop parse targetTime [] (bestOccurrence, bestDiff) = (bestOccurrence, bestDiff)"
| "matchLoop parse targetTime (occ # occurrences) (bestOccurrence, bestDiff) =
     (let occTime = getTime parse (start_time occ)
      in if \<not> isFinite occTime
         then matchLoop parse targetTime occurrences (bestOccurrence, bestDiff)
         else let diff = js_abs (js_sub occTime targetTime)
              in if js_lt diff bestDiff
                 then matchLoop parse targetTime occurrences (Some occ, diff)
                 else matchLoop parse targetTime occurrences (bestOccurrence, bestDiff))"

text \<open>The loop of the static-token variant has no finiteness check.\<close>

fun matchLoop_static ::
  "(string \<Rightarrow> int option) \<Rightarrow> num \<Rightarrow> occurrence list
     \<Rightarrow> occurrence option \<times> num \<Rightarrow> occurrence option \<times> num" where
  "matchLoop_static parse targetTime [] (bestOccurrence, bestDiff) =
     (bestOccurrence, bestDiff)"
| "matchLoop_static parse targetTime (occ # occurrences) (bestOccurrence, bestDiff) =
     (let occTime = getTime parse (start_time occ);
          diff = js_abs (js_sub occTime targetTime)
      in if js_lt diff bestDiff
         then matchLoop_static parse targetTime occurrences (Some occ, diff)
         else matchLoop_static parse targetTime occurrences (bestOccurrence, bestDiff))"

text \<open>Both loops start from \<open>bestOccurrence = null\<close> and \<open>bestDiff = Infinity\<close>.\<close>

definition matchOccurrence ::
  "(string \<Rightarrow> int option) \<Rightarrow> num \<Rightarrow> occurrence list \<Rightarrow> occurrence option \<times> num" where
  "matchOccurrence parse targetTime occurrences =
     matchLoop parse targetTime occurrences (None, PosInf)"

definition matchOccurrence_static ::
  "(string \<Rightarrow> int option) \<Rightarrow> num \<Rightarrow> occurrence list \<Rightarrow> occurrence option \<times> num" where
  "matchOccurrence_static parse targetTime occurrences =
     matchLoop_static parse targetTime occurrences (None, PosInf)"

definition diff :: "(string \<Rightarrow> int option) \<Rightarrow> num \<Rightarrow> occurrence \<Rightarrow> num" where
  \<comment> \<open>the loop's \<open>diff\<close> for one occurrence: \<open>Math.abs(occTime - targetTime)\<close>\<close>
  "diff parse targetTime occ =
     js_abs (js_sub (getTime parse (start_time occ)) targetTime)"

definition parsable :: "(string \<Rightarrow> int option) \<Rightarrow> occurrence \<Rightarrow> bool" where
  \<comment> \<open>the occurrence's \<open>start_time\<close> parses: its time value is finite\<close>
  "parsable parse occ = isFinite (getTime parse (start_time occ))"

definition MAX_DIFF_MS :: num where
  "MAX_DIFF_MS = Fin (6 * 60 * 60 * 1000)"


section \<open>Requests, upstream calls and responses\<close>

text \<open>
  The inbound request of a Zoom handler carries a body that is \<open>undefined\<close> or an
  object with the four properties the handler destructures.
\<close>

record zoom_body =
  fullName :: "string option"
  email :: "string option"
  role :: "string option"
  sessionTimeSelected :: "string option"

record 'a request =
  req_method :: string
  req_body :: 'a

text \<open>
  A value that a handler builds and hands to \<open>JSON.stringify\<close> or to \<open>res.json\<close>.
\<close>

datatype jsval =
    JUndefined
  | JBool bool
  | JStr string
  | JArr "jsval list"
  | JObj "(string \<times> jsval) list"

definition toJs :: "string option \<Rightarrow> jsval" where
  "toJs v = (case v of None \<Rightarrow> JUndefined | Some s \<Rightarrow> JStr s)"

text \<open>
  An upstream call is the pair of arguments of \<open>fetch\<close>. The \<open>payload\<close> is the value whose
  \<open>JSON.stringify\<close> is the body sent, \<open>None\<close> when the call has no body; \<open>fetch\<close>
  defaults to the method GET.
\<close>

record 'b http_request =
  url :: string
  http_method :: string
  headers :: "(string \<times> string) list"
  payload :: "'b option"

datatype error = Error string

fun message :: "error \<Rightarrow> string" where
  "message (Error m) = m"

text \<open>
  Of an upstream JSON payload the handlers read five properties. \<open>occurrences\<close> is
  \<open>None\<close> when the meeting has no such array.
\<close>

record json_data =
  access_token :: "string option"
  occurrences :: "occurrence list option"
  join_url :: "string option"
  registrant_id :: "string option"
  data_id :: "string option"

definition occurrences_of :: "json_data \<Rightarrow> occurrence list" where
  \<comment> \<open>the payload's array, or the empty array when there is none:
      \<open>Array.isArray(meetingData.occurrences) ? meetingData.occurrences : []\<close> in one
      variant, \<open>meetingData.occurrences || []\<close> in the other\<close>
  "occurrences_of d = (case occurrences d of None \<Rightarrow> [] | Some os \<Rightarrow> os)"

text \<open>
  An upstream response has a status, and its \<open>text()\<close> and \<open>json()\<close> each give a value
  or reject with an error. \<open>fetch\<close> itself resolves to a response or rejects.
\<close>

record upstream_response =
  res_status :: nat
  res_text :: "error + string"
  res_json :: "error + json_data"

datatype fetch_result = Rejected error | Resolved upstream_response

definition ok :: "upstream_response \<Rightarrow> bool" where
  \<comment> \<open>\<open>res.ok\<close>\<close>
  "ok r = (200 \<le> res_status r \<and> res_status r \<le> 299)"

datatype response_body = Json jsval | Send string

record response =
  status :: nat
  resp_headers :: "(string \<times> string) list"
  body :: response_body

text \<open>What a handler does, in order: upstream calls and responses to the client.\<close>

datatype 'b event = Fetch "'b http_request" | Respond response

definition json_reply :: "nat \<Rightarrow> (string \<times> jsval) list \<Rightarrow> response" where
  \<comment> \<open>\<open>res.status(code).json({ ... })\<close>\<close>
  "json_reply code props = \<lparr>status = code, resp_headers = [], body = Json (JObj props)\<rparr>"

definition failure :: "string \<Rightarrow> (string \<times> jsval) list" where
  \<comment> \<open>\<open>{ success: false, error: msg }\<close>\<close>
  "failure msg = [(''success'', JBool False), (''error'', JStr msg)]"

subsection \<open>Awaited steps inside a \<open>try\<close> block\<close>

text \<open>
  A step yields the upstream calls it made and either the error it threw or its value.
  \<open>and_then\<close> runs a step and hands its value to the rest of the block; an error skips
  the rest, as a rejected \<open>await\<close> jumps to the \<open>catch\<close>.
\<close>

type_synonym ('b, 'a) step = "'b http_request list \<times> (error + 'a)"

definition and_then :: "('b, 'a) step \<Rightarrow> ('a \<Rightarrow> ('b, 'c) step) \<Rightarrow> ('b, 'c) step" where
  "and_then m f =
     (case m of
        (cs, Inl e) \<Rightarrow> (cs, Inl e)
      | (cs, Inr x) \<Rightarrow> (case f x of (cs', r) \<Rightarrow> (cs @ cs', r)))"

definition result :: "'a \<Rightarrow> ('b, 'a) step" where
  "result x = ([], Inr x)"

definition throw :: "error \<Rightarrow> ('b, 'a) step" where
  "throw e = ([], Inl e)"

definition await_fetch ::
  "('b http_request \<Rightarrow> fetch_result) \<Rightarrow> 'b http_request \<Rightarrow> ('b, upstream_response) step" where
  "await_fetch fetch q =
     ([q], case fetch q of Rejected e \<Rightarrow> Inl e | Resolved r \<Rightarrow> Inr r)"

definition await_text :: "upstream_response \<Rightarrow> ('b, string) step" where
  "await_text r = ([], res_text r)"

definition await_json :: "upstream_response \<Rightarrow> ('b, json_data) step" where
  "await_json r = ([], res_json r)"


section \<open>Token acquisition\<close>

text \<open>
  \<open>getZoomAccessToken\<close> of \<open>src/api/register-zoom.js\<close>: one POST to the token endpoint
  with HTTP Basic authentication; it throws on a status outside 200..299 and on a
  payload whose \<open>access_token\<close> is falsy.
\<close>

definition tokenRequest ::
  "string option \<Rightarrow> string option \<Rightarrow> string option \<Rightarrow> 'b http_request" where
  \<comment> \<open>the arguments of the \<open>fetch\<close> in \<open>getZoomAccessToken\<close>\<close>
  "tokenRequest accountId clientId clientSecret =
     (let basic = base64 (toStr clientId @ '':'' @ toStr clientSecret)
      in \<lparr>url = ''https://zoom.us/oauth/token?grant_type=account_credentials&account_id=''
                  @ encodeURIComponent (toStr accountId),
          http_method = ''POST'',
          headers = [(''Authorization'', ''Basic '' @ basic),
                     (''Content-Type'', ''application/x-www-form-urlencoded'')],
          payload = None\<rparr>)"

definition getZoomAccessToken ::
  "('b http_request \<Rightarrow> fetch_result) \<Rightarrow> string option \<Rightarrow> string option \<Rightarrow> string option
     \<Rightarrow> ('b, string) step" where
  "getZoomAccessToken fetch accountId clientId clientSecret =
     (and_then
           (await_fetch fetch (tokenRequest accountId clientId clientSecret))
           (\<lambda>tokenRes.
              if \<not> ok tokenRes
              then and_then (await_text tokenRes)
                     (\<lambda>errText.
                        throw (Error (''Zoom token error: '' @ decimal (res_status tokenRes)
                                        @ '' '' @ errText)))
              else and_then (await_json tokenRes)
                     (\<lambda>tokenData.
                        if \<not> truthy (access_token tokenData)
                        then throw (Error ''Zoom token response missing access_token'')
                        else result (toStr (access_token tokenData)))))"

section \<open>The Zoom registration handler with on-demand OAuth\<close>

text \<open>
  \<open>handler\<close> of \<open>src/api/register-zoom.js\<close>. Its arguments are \<open>Date.parse\<close>,
  \<open>process.env\<close>, \<open>fetch\<close> and the request. \<open>regBody\<close> and \<open>regUrl\<close> are the
  handler's variables of these names; \<open>handler_try\<close> is its \<open>try\<close> block and \<open>handler\<close>
  adds the method check in front and the \<open>catch\<close> behind. Writes to the console are
  left out.
\<close>

definition regBody :: "zoom_body \<Rightarrow> jsval" where
  "regBody b =
     JObj ([(''email'', toJs (email b)),
            (''first_name'', JStr (first_name (toStr (fullName b)))),
            (''last_name'', JStr (last_name (toStr (fullName b))))]
           @ (if truthy (role b)
              then [(''custom_questions'',
                      JArr [JObj [(''title'', JStr ''Role''), (''value'', toJs (role b))]])]
              else []))"

definition regUrl :: "string option \<Rightarrow> occurrence option \<Rightarrow> string" where
  "regUrl MEETING_ID bestOccurrence =
     (let base = ''https://api.zoom.us/v2/meetings/'' @ encodeURIComponent (toStr MEETING_ID)
                   @ ''/registrants''
      in case bestOccurrence of
           None \<Rightarrow> base
         | Some occ \<Rightarrow>
             if truthy (occurrence_id occ)
             then base @ ''?occurrence_ids='' @ encodeURIComponent (toStr (occurrence_id occ))
             else base)"

definition meetingRequest :: "string option \<Rightarrow> string \<Rightarrow> 'b http_request" where
  \<comment> \<open>the arguments of the \<open>fetch\<close> of step 1\<close>
  "meetingRequest MEETING_ID TOKEN =
     \<lparr>url = ''https://api.zoom.us/v2/meetings/'' @ encodeURIComponent (toStr MEETING_ID),
      http_method = ''GET'',
      headers = [(''Authorization'', ''Bearer '' @ TOKEN)],
      payload = None\<rparr>"

definition registrationRequest :: "string \<Rightarrow> string \<Rightarrow> jsval \<Rightarrow> jsval http_request" where
  \<comment> \<open>the arguments of the \<open>fetch\<close> of step 3, in both Zoom handlers\<close>
  "registrationRequest target TOKEN content =
     \<lparr>url = target,
      http_method = ''POST'',
      headers = [(''Authorization'', ''Bearer '' @ TOKEN),
                 (''Content-Type'', ''application/json'')],
      payload = Some content\<rparr>"

definition register ::
  "(jsval http_request \<Rightarrow> fetch_result) \<Rightarrow> string option \<Rightarrow> string \<Rightarrow> zoom_body
     \<Rightarrow> occurrence option \<Rightarrow> (jsval, response) step" where
  \<comment> \<open>step 3 and the success response\<close>
  "register fetch MEETING_ID TOKEN b bestOccurrence =
     and_then
       (await_fetch fetch
          (registrationRequest (regUrl MEETING_ID bestOccurrence) TOKEN (regBody b)))
       (\<lambda>regRes.
          if \<not> ok regRes
          then and_then (await_text regRes) (\<lambda>errText.
                 result (json_reply 500 (failure ''Zoom registration failed'')))
          else
          and_then (await_json regRes) (\<lambda>regData.
          result (json_reply 200
            [(''success'', JBool True),
             (''join_url'', toJs (or_else (join_url regData) (Some []))),
             (''registrant_id'',
                toJs (or_else (or_else (registrant_id regData) (data_id regData)) (Some []))),
             (''occurrence_id'',
                case bestOccurrence of
                  None \<Rightarrow> JStr []
                | Some occ \<Rightarrow> toJs (occurrence_id occ)),
             (''matched_start_time'',
                case bestOccurrence of
                  None \<Rightarrow> JStr []
                | Some occ \<Rightarrow> toJs (start_time occ))])))"

definition handler_try ::
  "(string \<Rightarrow> int option) \<Rightarrow> (string \<Rightarrow> string option) \<Rightarrow> (jsval http_request \<Rightarrow> fetch_result)
     \<Rightarrow> zoom_body option request \<Rightarrow> (jsval, response) step" where
  "handler_try parse env fetch req =
     (let b = (case req_body req of
                 None \<Rightarrow> \<lparr>fullName = None, email = None, role = None,
                           sessionTimeSelected = None\<rparr>
               | Some b \<Rightarrow> b)
      in
      if \<not> truthy (fullName b) \<or> \<not> truthy (email b) \<or> \<not> truthy (sessionTimeSelected b)
      then result (json_reply 400
             (failure ''Missing required fields: fullName, email, sessionTimeSelected''))
      else
      let MEETING_ID = env ''ZOOM_MEETING_ID'';
          ACCOUNT_ID = env ''ZOOM_ACCOUNT_ID'';
          CLIENT_ID = env ''ZOOM_CLIENT_ID'';
          CLIENT_SECRET = env ''ZOOM_CLIENT_SECRET''
      in
      if \<not> truthy MEETING_ID \<or> \<not> truthy ACCOUNT_ID \<or> \<not> truthy CLIENT_ID
         \<or> \<not> truthy CLIENT_SECRET
      then result (json_reply 500 (failure ''Server configuration error''))
      else
      and_then (getZoomAccessToken fetch ACCOUNT_ID CLIENT_ID CLIENT_SECRET) (\<lambda>TOKEN.
      and_then (await_fetch fetch (meetingRequest MEETING_ID TOKEN)) (\<lambda>meetingRes.
      if \<not> ok meetingRes
      then and_then (await_text meetingRes) (\<lambda>errText.
             result (json_reply 500 (failure ''Failed to fetch Zoom meeting details'')))
      else
      and_then (await_json meetingRes) (\<lambda>meetingData.
      let occs = occurrences_of meetingData;
          targetTime = getTime parse (sessionTimeSelected b)
      in
      if \<not> isFinite targetTime
      then result (json_reply 400 (failure ''Invalid sessionTimeSelected timestamp''))
      else
      case matchOccurrence parse targetTime occs of (bestOccurrence, bestDiff) \<Rightarrow>
      if bestOccurrence \<noteq> None \<and> js_gt bestDiff MAX_DIFF_MS
      then result (json_reply 400
             (failure ''Selected session time does not match any Zoom occurrence''))
      else
      register fetch MEETING_ID TOKEN b bestOccurrence))))"

definition handler ::
  "(string \<Rightarrow> int option) \<Rightarrow> (string \<Rightarrow> string option) \<Rightarrow> (jsval http_request \<Rightarrow> fetch_result)
     \<Rightarrow> zoom_body option request \<Rightarrow> jsval event list" where
  "handler parse env fetch req =
     (if req_method req \<noteq> ''POST''
      then [Respond (json_reply 405 (failure ''Method not allowed''))]
      else case handler_try parse env fetch req of
             (calls, Inr res) \<Rightarrow> map Fetch calls @ [Respond res]
           | (calls, Inl err) \<Rightarrow>
               map Fetch calls
               @ [Respond (json_reply 500
                    (failure (or_default (message err) ''Internal server error'')))])"


section \<open>The Zoom registration handler with a static token\<close>

text \<open>
  The second \<open>handler\<close> of \<open>src/unnamed/part_000\<close>, which reads the bearer token from
  \<open>ZOOM_ACCESS_TOKEN\<close>. It destructures \<open>req.body\<close> directly, which throws a
  \<open>TypeError\<close> inside the \<open>try\<close> block when the body is \<open>undefined\<close> (the message is
  the one V8 prints). It neither checks the target time nor the distance of the best
  match, and it does not encode what it puts into a URL.
\<close>

definition regUrl_static :: "string option \<Rightarrow> occurrence option \<Rightarrow> string" where
  "regUrl_static MEETING_ID bestOccurrence =
     (let base = ''https://api.zoom.us/v2/meetings/'' @ toStr MEETING_ID @ ''/registrants''
      in case bestOccurrence of
           None \<Rightarrow> base
         | Some occ \<Rightarrow> base @ ''?occurrence_ids='' @ toStr (occurrence_id occ))"

definition meetingRequest_static :: "string option \<Rightarrow> string \<Rightarrow> 'b http_request" where
  "meetingRequest_static MEETING_ID TOKEN =
     \<lparr>url = ''https://api.zoom.us/v2/meetings/'' @ toStr MEETING_ID,
      http_method = ''GET'',
      headers = [(''Authorization'', ''Bearer '' @ TOKEN)],
      payload = None\<rparr>"

definition register_static ::
  "(jsval http_request \<Rightarrow> fetch_result) \<Rightarrow> string option \<Rightarrow> string \<Rightarrow> zoom_body
     \<Rightarrow> occurrence option \<Rightarrow> (jsval, response) step" where
  \<comment> \<open>step 3 and the success response\<close>
  "register_static fetch MEETING_ID TOKEN b bestOccurrence =
     and_then
       (await_fetch fetch
          (registrationRequest (regUrl_static MEETING_ID bestOccurrence) TOKEN (regBody b)))
       (\<lambda>regRes.
          if \<not> ok regRes
          then and_then (await_text regRes) (\<lambda>errText.
                 result (json_reply 500 (failure ''Zoom registration failed'')))
          else
          and_then (await_json regRes) (\<lambda>regData.
          result (json_reply 200
            [(''success'', JBool True),
             (''join_url'', toJs (or_else (join_url regData) (Some []))),
             (''registrant_id'',
                toJs (or_else (or_else (registrant_id regData) (data_id regData)) (Some []))),
             (''occurrence_id'',
                case bestOccurrence of
                  None \<Rightarrow> JStr []
                | Some occ \<Rightarrow> toJs (occurrence_id occ))])))"

definition handler_static_try ::
  "(string \<Rightarrow> int option) \<Rightarrow> (string \<Rightarrow> string option) \<Rightarrow> (jsval http_request \<Rightarrow> fetch_result)
     \<Rightarrow> zoom_body option request \<Rightarrow> (jsval, response) step" where
  "handler_static_try parse env fetch req =
     (case req_body req of
        None \<Rightarrow>
          throw (Error (''Cannot destructure property 'fullName' of 'req.body' ''
                          @ ''as it is undefined.''))
      | Some b \<Rightarrow>
      if \<not> truthy (fullName b) \<or> \<not> truthy (email b) \<or> \<not> truthy (sessionTimeSelected b)
      then result (json_reply 400
             (failure ''Missing required fields: fullName, email, sessionTimeSelected''))
      else
      let MEETING_ID = env ''ZOOM_MEETING_ID'';
          TOKEN = env ''ZOOM_ACCESS_TOKEN''
      in
      if \<not> truthy MEETING_ID \<or> \<not> truthy TOKEN
      then result (json_reply 500 (failure ''Server configuration error''))
      else
      and_then (await_fetch fetch (meetingRequest_static MEETING_ID (toStr TOKEN)))
        (\<lambda>meetingRes.
      if \<not> ok meetingRes
      then and_then (await_text meetingRes) (\<lambda>errText.
             result (json_reply 500 (failure ''Failed to fetch Zoom meeting details'')))
      else
      and_then (await_json meetingRes) (\<lambda>meetingData.
      let occs = occurrences_of meetingData;
          targetTime = getTime parse (sessionTimeSelected b)
      in
      case matchOccurrence_static parse targetTime occs of (bestOccurrence, bestDiff) \<Rightarrow>
      register_static fetch MEETING_ID (toStr TOKEN) b bestOccurrence)))"

definition handler_static ::
  "(string \<Rightarrow> int option) \<Rightarrow> (string \<Rightarrow> string option) \<Rightarrow> (jsval http_request \<Rightarrow> fetch_result)
     \<Rightarrow> zoom_body option request \<Rightarrow> jsval event list" where
  "handler_static parse env fetch req =
     (if req_method req \<noteq> ''POST''
      then [Respond (json_reply 405 (failure ''Method not allowed''))]
      else case handler_static_try parse env fetch req of
             (calls, Inr res) \<Rightarrow> map Fetch calls @ [Respond res]
           | (calls, Inl err) \<Rightarrow>
               map Fetch calls
               @ [Respond (json_reply 500
                    (failure (or_default (message err) ''Internal server error'')))])"

section \<open>The Zoho relay\<close>

text \<open>
  The first \<open>handler\<close> of \<open>src/unnamed/part_000\<close>. The request body is \<open>undefined\<close>
  (\<open>None\<close>) or a parsed JSON value of any kind (\<open>Some\<close>). The relay hands it to
  \<open>JSON.stringify\<close> and posts the result: for a JSON value that is its serialisation,
  and for \<open>undefined\<close> it is \<open>undefined\<close>, so that \<open>fetch\<close> sends no body. A
  \<open>text()\<close> that rejects counts as the empty text.
\<close>

definition zohoRequest :: "string \<Rightarrow> 'b option \<Rightarrow> 'b http_request" where
  \<comment> \<open>the arguments of the relay's \<open>fetch\<close>, with \<open>body: JSON.stringify(req.body)\<close>\<close>
  "zohoRequest zohoUrl content =
     \<lparr>url = zohoUrl,
      http_method = ''POST'',
      headers = [(''Content-Type'', ''application/json'')],
      payload = content\<rparr>"

definition handler_zoho ::
  "(string \<Rightarrow> string option) \<Rightarrow> ('b http_request \<Rightarrow> fetch_result) \<Rightarrow> 'b option request
     \<Rightarrow> 'b event list" where
  "handler_zoho env fetch req =
     (if req_method req \<noteq> ''POST''
      then [Respond \<lparr>status = 405, resp_headers = [(''Allow'', ''POST'')],
                     body = Json (JObj [(''error'', JStr ''Method not allowed'')])\<rparr>]
      else
      let zohoUrl = env ''ZOHO_URL''
      in
      if \<not> truthy zohoUrl
      then [Respond (json_reply 500 [(''error'', JStr ''ZOHO_URL is not set'')])]
      else
      let call = zohoRequest (toStr zohoUrl) (req_body req)
      in
      case fetch call of
        Rejected e \<Rightarrow>
          [Fetch call,
           Respond (json_reply 500
             [(''error'', JStr (or_default (message e) ''Zoho proxy error''))])]
      | Resolved r \<Rightarrow>
          let text = (case res_text r of Inl _ \<Rightarrow> [] | Inr t \<Rightarrow> t)
          in [Fetch call,
              Respond \<lparr>status = res_status r, resp_headers = [],
                       body = Send (or_default text ''ok'')\<rparr>])"

section \<open>Reading a trace\<close>

fun calls :: "'b event list \<Rightarrow> 'b http_request list" where
  "calls [] = []"
| "calls (Fetch q # evs) = q # calls evs"
| "calls (Respond r # evs) = calls evs"

fun responses :: "'b event list \<Rightarrow> response list" where
  "responses [] = []"
| "responses (Fetch q # evs) = responses evs"
| "responses (Respond r # evs) = r # responses evs"

definition sent_properties :: "response \<Rightarrow> (string \<times> jsval) list" where
  \<comment> \<open>the properties of the JSON body that \<open>res.json\<close> sends: it serialises the object
      with \<open>JSON.stringify\<close>, which leaves out a property whose value is \<open>undefined\<close>\<close>
  "sent_properties r =
     (case body r of
        Json (JObj props) \<Rightarrow> filter (\<lambda>(name, v). v \<noteq> JUndefined) props
      | _ \<Rightarrow> [])"

definition property :: "response \<Rightarrow> string \<Rightarrow> jsval option" where
  \<comment> \<open>a property of the body sent\<close>
  "property r name = map_of (sent_properties r) name"

definition property_names :: "response \<Rightarrow> string list" where
  \<comment> \<open>the names of the properties of the body sent, in order\<close>
  "property_names r = map fst (sent_properties r)"

section \<open>Removing the unparsable occurrences from the upstream\<close>

definition keep_parsable :: "(string \<Rightarrow> int option) \<Rightarrow> json_data \<Rightarrow> json_data" where
  \<comment> \<open>the payload without the occurrences whose \<open>start_time\<close> does not parse\<close>
  "keep_parsable parse d =
     d\<lparr>occurrences :=
          (case occurrences d of
             None \<Rightarrow> None
           | Some os \<Rightarrow> Some (filter (parsable parse) os))\<rparr>"

definition without_unparsable ::
  "(string \<Rightarrow> int option) \<Rightarrow> ('b http_request \<Rightarrow> fetch_result) \<Rightarrow> 'b http_request
     \<Rightarrow> fetch_result" where
  \<comment> \<open>the same upstream, except that every payload has lost its unparsable occurrences\<close>
  "without_unparsable parse fetch q =
     (case fetch q of
        Rejected e \<Rightarrow> Rejected e
      | Resolved r \<Rightarrow>
          Resolved (r\<lparr>res_json :=
            (case res_json r of
               Inl e \<Rightarrow> Inl e
             | Inr d \<Rightarrow> Inr (keep_parsable parse d))\<rparr>))"

section \<open>Stages of the registration pipeline\<close>

text \<open>
  The conditions under which a Zoom handler gets past its validation, its configuration
  check and its first upstream calls. They name the stages the claims speak about.
\<close>

definition valid_request :: "zoom_body option request \<Rightarrow> zoom_body \<Rightarrow> bool" where
  \<comment> \<open>a POST whose body \<open>b\<close> has the three required fields\<close>
  "valid_request req b =
     (req_method req = ''POST'' \<and> req_body req = Some b
      \<and> truthy (fullName b) \<and> truthy (email b) \<and> truthy (sessionTimeSelected b))"

definition configured :: "(string \<Rightarrow> string option) \<Rightarrow> bool" where
  \<comment> \<open>the four variables of the OAuth variant are set\<close>
  "configured env =
     (truthy (env ''ZOOM_MEETING_ID'') \<and> truthy (env ''ZOOM_ACCOUNT_ID'')
      \<and> truthy (env ''ZOOM_CLIENT_ID'') \<and> truthy (env ''ZOOM_CLIENT_SECRET''))"

definition configured_static :: "(string \<Rightarrow> string option) \<Rightarrow> bool" where
  \<comment> \<open>the two variables of the static-token variant are set\<close>
  "configured_static env =
     (truthy (env ''ZOOM_MEETING_ID'') \<and> truthy (env ''ZOOM_ACCESS_TOKEN''))"

definition envTokenRequest :: "(string \<Rightarrow> string option) \<Rightarrow> 'b http_request" where
  \<comment> \<open>the token request that \<open>handler\<close> makes from its environment\<close>
  "envTokenRequest env =
     tokenRequest (env ''ZOOM_ACCOUNT_ID'') (env ''ZOOM_CLIENT_ID'') (env ''ZOOM_CLIENT_SECRET'')"

definition answers ::
  "('b http_request \<Rightarrow> fetch_result) \<Rightarrow> 'b http_request \<Rightarrow> json_data \<Rightarrow> bool" where
  \<comment> \<open>the upstream answers the call with a success status and the JSON payload \<open>d\<close>\<close>
  "answers fetch q d = (\<exists>r. fetch q = Resolved r \<and> ok r \<and> res_json r = Inr d)"

definition grants ::
  "('b http_request \<Rightarrow> fetch_result) \<Rightarrow> 'b http_request \<Rightarrow> string \<Rightarrow> bool" where
  \<comment> \<open>the token endpoint answers the call with the non-empty access token \<open>tok\<close>\<close>
  "grants fetch q tok =
     (\<exists>d. answers fetch q d \<and> access_token d = Some tok \<and> tok \<noteq> [])"

section \<open>The end-to-end scenario of the specification\<close>

text \<open>
  A registrant \<open>Ann Lee\<close> asks for the session of 2024-05-01 10:00 UTC. The upstream
  answers the token exchange with a token, the meeting fetch with a given payload and
  the registration with a join URL. \<open>scenario_parse\<close> gives the time values of the
  timestamps that occur, in milliseconds since 1970; no other string is used as a
  timestamp but \<open>not a date\<close>, which does not parse.
\<close>

definition scenario_parse :: "string \<Rightarrow> int option" where
  "scenario_parse s =
     (if s = ''2024-05-01T10:00:00Z'' then Some 1714557600000
      else if s = ''2024-05-01T09:59:00Z'' then Some 1714557540000
      else if s = ''2024-05-01T16:00:00Z'' then Some 1714579200000
      else if s = ''2024-05-02T10:00:00Z'' then Some 1714644000000
      else None)"

definition scenario_env :: "string \<Rightarrow> string option" where
  "scenario_env =
     map_of [(''ZOOM_MEETING_ID'', ''85746065''),
             (''ZOOM_ACCOUNT_ID'', ''acct''),
             (''ZOOM_CLIENT_ID'', ''id''),
             (''ZOOM_CLIENT_SECRET'', ''secret''),
             (''ZOOM_ACCESS_TOKEN'', ''tok''),
             (''ZOHO_URL'', ''https://flow.zoho.com/hook'')]"

definition no_data :: json_data where
  "no_data = \<lparr>access_token = None, occurrences = None, join_url = None,
              registrant_id = None, data_id = None\<rparr>"

definition scenario_fetch ::
  "occurrence list option \<Rightarrow> jsval http_request \<Rightarrow> fetch_result" where
  "scenario_fetch occs q =
     (if url q = ''https://zoom.us/oauth/token?grant_type=account_credentials&account_id=acct''
      then Resolved \<lparr>res_status = 200, res_text = Inr [],
                      res_json = Inr (no_data\<lparr>access_token := Some ''tok''\<rparr>)\<rparr>
      else if url q = ''https://api.zoom.us/v2/meetings/85746065''
      then Resolved \<lparr>res_status = 200, res_text = Inr [],
                      res_json = Inr (no_data\<lparr>occurrences := occs\<rparr>)\<rparr>
      else if http_method q = ''POST''
      then Resolved \<lparr>res_status = 201, res_text = Inr [],
                      res_json = Inr (no_data\<lparr>join_url := Some ''https://zoom.us/w/1'',
                                              registrant_id := Some ''r1''\<rparr>)\<rparr>
      else Rejected (Error ''fetch failed''))"

definition scenario_request :: "string \<Rightarrow> zoom_body option request" where
  "scenario_request sessionTime =
     \<lparr>req_method = ''POST'',
      req_body = Some \<lparr>fullName = Some ''Ann Lee'', email = Some ''a@x.com'', role = None,
                       sessionTimeSelected = Some sessionTime\<rparr>\<rparr>"

definition occurrence1 :: occurrence where
  "occurrence1 = \<lparr>occurrence_id = Some ''1'', start_time = Some ''2024-05-01T09:59:00Z''\<rparr>"

definition occurrence2 :: occurrence where
  "occurrence2 = \<lparr>occurrence_id = Some ''2'', start_time = Some ''2024-05-02T10:00:00Z''\<rparr>"

definition occurrence3 :: occurrence where
  "occurrence3 = \<lparr>occurrence_id = Some ''3'', start_time = Some ''2024-05-01T16:00:00Z''\<rparr>"

definition occurrence_without_id :: occurrence where
  "occurrence_without_id =
     \<lparr>occurrence_id = None, start_time = Some ''2024-05-01T09:59:00Z''\<rparr>"

definition occurrence_bad :: occurrence where
  "occurrence_bad = \<lparr>occurrence_id = Some ''9'', start_time = Some ''not a date''\<rparr>"

section \<open>The matching loop\<close>

text \<open>
  A time value is \<open>NaN\<close> or an integer within the range of the Date type, so the
  subtraction of the loop only meets differences below \<open>2^54\<close>, where \<open>toDouble\<close>
  is the rounding of the double arithmetic; up to \<open>2^53\<close> the difference is exact.
\<close>

lemma getTime_cases:
  "getTime parse v = NaN \<or> (\<exists>t. getTime parse v = Fin t \<and> \<bar>t\<bar> \<le> 8640000000000000)"
  by (auto simp: getTime_def split: option.splits)

lemma time_difference_range:
  assumes "getTime parse v = Fin a" and "getTime parse w = Fin b"
  shows "\<bar>a - b\<bar> < 2 ^ 54"
proof -
  have "\<bar>a\<bar> \<le> 8640000000000000" and "\<bar>b\<bar> \<le> 8640000000000000"
    using getTime_cases [of parse v] getTime_cases [of parse w] assms by auto
  then show ?thesis by simp
qed

lemma diff_cases:
  "isFinite targetTime \<Longrightarrow>
   (\<not> parsable parse occ \<and> diff parse targetTime occ = NaN)
   \<or> (parsable parse occ \<and> (\<exists>d. diff parse targetTime occ = Fin d))"
  using getTime_cases [of parse "start_time occ"]
  by (cases targetTime) (auto simp: diff_def parsable_def)

lemma diff_unparsable: "\<not> parsable parse occ \<Longrightarrow> diff parse targetTime occ = NaN"
  using getTime_cases [of parse "start_time occ"]
  by (auto simp: diff_def parsable_def)

lemma matchLoop_static_step:
  "matchLoop_static parse targetTime (occ # occs) (best, bestDiff) =
     (if js_lt (diff parse targetTime occ) bestDiff
      then matchLoop_static parse targetTime occs (Some occ, diff parse targetTime occ)
      else matchLoop_static parse targetTime occs (best, bestDiff))"
  by (simp add: diff_def Let_def)

lemma matchLoop_step:
  "matchLoop parse targetTime (occ # occs) (best, bestDiff) =
     (if js_lt (diff parse targetTime occ) bestDiff
      then matchLoop parse targetTime occs (Some occ, diff parse targetTime occ)
      else matchLoop parse targetTime occs (best, bestDiff))"
  using getTime_cases [of parse "start_time occ"]
  by (auto simp: diff_def Let_def)

lemma loops_agree:
  "matchLoop parse targetTime occs st = matchLoop_static parse targetTime occs st"
proof (induction occs arbitrary: st)
  case Nil
  show ?case by (cases st) simp
next
  case (Cons occ occs)
  show ?case
    by (cases st) (simp only: matchLoop_step matchLoop_static_step Cons.IH)
qed

lemma matchLoop_filter:
  "matchLoop parse targetTime (filter (parsable parse) occs) st =
   matchLoop parse targetTime occs st"
proof (induction occs arbitrary: st)
  case Nil
  show ?case by simp
next
  case (Cons occ occs)
  obtain best bestDiff where st: "st = (best, bestDiff)" by (cases st)
  show ?case
  proof (cases "parsable parse occ")
    case True
    then show ?thesis by (simp del: matchLoop.simps add: st matchLoop_step Cons.IH)
  next
    case False
    then show ?thesis
      by (simp del: matchLoop.simps add: st matchLoop_step diff_unparsable Cons.IH)
  qed
qed

lemma matchLoop_selects_member:
  "matchLoop parse targetTime occs (best, bestDiff) = (Some occ, d) \<Longrightarrow>
   best = Some occ \<or> (occ \<in> set occs \<and> parsable parse occ)"
proof (induction occs arbitrary: best bestDiff)
  case Nil
  then show ?case by simp
next
  case (Cons x occs)
  show ?case
  proof (cases "js_lt (diff parse targetTime x) bestDiff")
    case True
    then have "matchLoop parse targetTime occs (Some x, diff parse targetTime x) = (Some occ, d)"
      using Cons.prems by (simp del: matchLoop.simps add: matchLoop_step)
    from Cons.IH [OF this] have "x = occ \<or> (occ \<in> set occs \<and> parsable parse occ)"
      by auto
    moreover have "parsable parse x"
      using True diff_unparsable [of parse x targetTime] by (cases "parsable parse x") auto
    ultimately show ?thesis by auto
  next
    case False
    then have "matchLoop parse targetTime occs (best, bestDiff) = (Some occ, d)"
      using Cons.prems by (simp del: matchLoop.simps add: matchLoop_step)
    from Cons.IH [OF this] show ?thesis by auto
  qed
qed

text \<open>
  The invariant of the loop on a list whose differences are all finite: either nothing
  beat the starting \<open>bestDiff\<close>, or the result is the first position of the least
  difference.
\<close>

lemma matchLoop_min:
  assumes "\<forall>occ \<in> set occs. \<exists>e. diff parse targetTime occ = Fin e"
    and "bestDiff = PosInf \<or> (\<exists>b. bestDiff = Fin b)"
  shows "(matchLoop parse targetTime occs (best, bestDiff) = (best, bestDiff)
            \<and> (\<forall>j<length occs. \<not> js_lt (diff parse targetTime (occs ! j)) bestDiff))
         \<or> (\<exists>i<length occs. \<exists>d.
               matchLoop parse targetTime occs (best, bestDiff) = (Some (occs ! i), Fin d)
               \<and> diff parse targetTime (occs ! i) = Fin d
               \<and> js_lt (Fin d) bestDiff
               \<and> (\<forall>j<length occs. \<exists>e. diff parse targetTime (occs ! j) = Fin e \<and> d \<le> e
                      \<and> (j < i \<longrightarrow> d < e)))"
  using assms
proof (induction occs arbitrary: best bestDiff)
  case Nil
  then show ?case by simp
next
  case (Cons x occs)
  let ?D = "\<lambda>x. diff parse targetTime x"
  from Cons.prems(1) obtain c where c: "?D x = Fin c" by auto
  have fin: "\<forall>occ \<in> set occs. \<exists>e. ?D occ = Fin e" using Cons.prems(1) by simp
  show ?case
  proof (cases "js_lt (?D x) bestDiff")
    case True
    have step: "matchLoop parse targetTime (x # occs) (best, bestDiff)
                  = matchLoop parse targetTime occs (Some x, Fin c)"
      using True c by (simp del: matchLoop.simps add: matchLoop_step)
    from Cons.IH [OF fin, of "Fin c" "Some x"]
    consider
      (same) "matchLoop parse targetTime occs (Some x, Fin c) = (Some x, Fin c)"
             "\<forall>j<length occs. \<not> js_lt (?D (occs ! j)) (Fin c)"
    | (better) i d where "i < length occs"
        "matchLoop parse targetTime occs (Some x, Fin c) = (Some (occs ! i), Fin d)"
        "?D (occs ! i) = Fin d" "js_lt (Fin d) (Fin c)"
        "\<forall>j<length occs. \<exists>e. ?D (occs ! j) = Fin e \<and> d \<le> e \<and> (j < i \<longrightarrow> d < e)"
      by blast
    then show ?thesis
    proof cases
      case same
      have "\<forall>j<length (x # occs). \<exists>e. ?D ((x # occs) ! j) = Fin e \<and> c \<le> e \<and> (j < 0 \<longrightarrow> c < e)"
      proof (intro allI impI)
        fix j assume j: "j < length (x # occs)"
        show "\<exists>e. ?D ((x # occs) ! j) = Fin e \<and> c \<le> e \<and> (j < 0 \<longrightarrow> c < e)"
        proof (cases j)
          case 0
          then show ?thesis using c by simp
        next
          case (Suc k)
          then have k: "k < length occs" using j by simp
          then obtain e where e: "?D (occs ! k) = Fin e" using fin by (meson nth_mem)
          with same(2) k have "c \<le> e" by fastforce
          then show ?thesis using Suc e by simp
        qed
      qed
      then have "\<exists>i<length (x # occs). \<exists>d.
               matchLoop parse targetTime (x # occs) (best, bestDiff) = (Some ((x # occs) ! i), Fin d)
               \<and> ?D ((x # occs) ! i) = Fin d
               \<and> js_lt (Fin d) bestDiff
               \<and> (\<forall>j<length (x # occs). \<exists>e. ?D ((x # occs) ! j) = Fin e \<and> d \<le> e
                      \<and> (j < i \<longrightarrow> d < e))"
        using step same(1) c True
        by (intro exI [of _ 0] exI [of _ c]) simp
      then show ?thesis by blast
    next
      case better
      have lt: "js_lt (Fin d) bestDiff"
        using better(4) True c Cons.prems(2) by auto
      have "\<forall>j<length (x # occs). \<exists>e. ?D ((x # occs) ! j) = Fin e \<and> d \<le> e \<and> (j < Suc i \<longrightarrow> d < e)"
      proof (intro allI impI)
        fix j assume j: "j < length (x # occs)"
        show "\<exists>e. ?D ((x # occs) ! j) = Fin e \<and> d \<le> e \<and> (j < Suc i \<longrightarrow> d < e)"
        proof (cases j)
          case 0
          then show ?thesis using c better(4) by simp
        next
          case (Suc k)
          then have k: "k < length occs" using j by simp
          with better(5) Suc show ?thesis by simp
        qed
      qed
      then have "\<exists>i<length (x # occs). \<exists>d.
               matchLoop parse targetTime (x # occs) (best, bestDiff) = (Some ((x # occs) ! i), Fin d)
               \<and> ?D ((x # occs) ! i) = Fin d
               \<and> js_lt (Fin d) bestDiff
               \<and> (\<forall>j<length (x # occs). \<exists>e. ?D ((x # occs) ! j) = Fin e \<and> d \<le> e
                      \<and> (j < i \<longrightarrow> d < e))"
        using step better(1,2,3) lt
        by (intro exI [of _ "Suc i"] exI [of _ d]) simp
      then show ?thesis by blast
    qed
  next
    case False
    have step: "matchLoop parse targetTime (x # occs) (best, bestDiff)
                  = matchLoop parse targetTime occs (best, bestDiff)"
      using False by (simp del: matchLoop.simps add: matchLoop_step)
    from Cons.IH [OF fin Cons.prems(2), of best]
    consider
      (same) "matchLoop parse targetTime occs (best, bestDiff) = (best, bestDiff)"
             "\<forall>j<length occs. \<not> js_lt (?D (occs ! j)) bestDiff"
    | (better) i d where "i < length occs"
        "matchLoop parse targetTime occs (best, bestDiff) = (Some (occs ! i), Fin d)"
        "?D (occs ! i) = Fin d" "js_lt (Fin d) bestDiff"
        "\<forall>j<length occs. \<exists>e. ?D (occs ! j) = Fin e \<and> d \<le> e \<and> (j < i \<longrightarrow> d < e)"
      by blast
    then show ?thesis
    proof cases
      case same
      have "\<forall>j<length (x # occs). \<not> js_lt (?D ((x # occs) ! j)) bestDiff"
      proof (intro allI impI)
        fix j assume j: "j < length (x # occs)"
        show "\<not> js_lt (?D ((x # occs) ! j)) bestDiff"
          using False same(2) j by (cases j) auto
      qed
      with step same(1) show ?thesis by simp
    next
      case better
      have dc: "d < c"
        using better(4) False c Cons.prems(2) by auto
      have "\<forall>j<length (x # occs). \<exists>e. ?D ((x # occs) ! j) = Fin e \<and> d \<le> e \<and> (j < Suc i \<longrightarrow> d < e)"
      proof (intro allI impI)
        fix j assume j: "j < length (x # occs)"
        show "\<exists>e. ?D ((x # occs) ! j) = Fin e \<and> d \<le> e \<and> (j < Suc i \<longrightarrow> d < e)"
        proof (cases j)
          case 0
          then show ?thesis using c dc by simp
        next
          case (Suc k)
          then have k: "k < length occs" using j by simp
          with better(5) Suc show ?thesis by simp
        qed
      qed
      then have "\<exists>i<length (x # occs). \<exists>d.
               matchLoop parse targetTime (x # occs) (best, bestDiff) = (Some ((x # occs) ! i), Fin d)
               \<and> ?D ((x # occs) ! i) = Fin d
               \<and> js_lt (Fin d) bestDiff
               \<and> (\<forall>j<length (x # occs). \<exists>e. ?D ((x # occs) ! j) = Fin e \<and> d \<le> e
                      \<and> (j < i \<longrightarrow> d < e))"
        using step better(1,2,3,4)
        by (intro exI [of _ "Suc i"] exI [of _ d]) simp
      then show ?thesis by blast
    qed
  qed
qed

lemma toDouble_exact: "\<bar>x\<bar> \<le> 2 ^ 53 \<Longrightarrow> toDouble x = x"
  by (simp add: toDouble_def)

lemma diff_exact:
  "getTime parse (start_time occ) = Fin a \<Longrightarrow> \<bar>a - t\<bar> \<le> 2 ^ 53
   \<Longrightarrow> diff parse (Fin t) occ = Fin \<bar>a - t\<bar>"
  by (simp add: diff_def toDouble_exact)

lemma diff_parsable:
  assumes "isFinite targetTime" and "parsable parse occ"
  shows "\<exists>e. diff parse targetTime occ = Fin e"
  using diff_cases [OF assms(1), of parse occ] assms(2) by blast

lemma scenario_diffs:
  "diff scenario_parse (Fin 1714557600000) occurrence1 = Fin 60000"
  "diff scenario_parse (Fin 1714557600000) occurrence2 = Fin 86400000"
  "diff scenario_parse (Fin 1714557600000) occurrence3 = Fin 21600000"
  "diff scenario_parse (Fin 1714557600000) occurrence_bad = NaN"
  by (simp_all add: diff_def getTime_def scenario_parse_def occurrence1_def occurrence2_def
        occurrence3_def occurrence_bad_def toDouble_def)

lemma scenario_parsable:
  "parsable scenario_parse occurrence1" "parsable scenario_parse occurrence2"
  "parsable scenario_parse occurrence3" "\<not> parsable scenario_parse occurrence_bad"
  by (simp_all add: parsable_def getTime_def scenario_parse_def occurrence1_def occurrence2_def
        occurrence3_def occurrence_bad_def)

section \<open>Steps of the handlers\<close>

lemmas step_defs = and_then_def result_def throw_def await_fetch_def await_text_def await_json_def

lemma calls_map_Fetch [simp]: "calls (map Fetch cs @ evs) = cs @ calls evs"
  by (induction cs) simp_all

lemma responses_map_Fetch [simp]: "responses (map Fetch cs @ evs) = responses evs"
  by (induction cs) simp_all

lemma token_calls: "fst (getZoomAccessToken fetch a c s) = [tokenRequest a c s]"
  by (simp add: getZoomAccessToken_def step_defs split: fetch_result.splits sum.splits)

lemma token_result:
  "snd (getZoomAccessToken fetch a c s) =
     (case fetch (tokenRequest a c s) of
        Rejected e \<Rightarrow> Inl e
      | Resolved r \<Rightarrow>
          if \<not> ok r
          then (case res_text r of
                  Inl e \<Rightarrow> Inl e
                | Inr t \<Rightarrow> Inl (Error (''Zoom token error: '' @ decimal (res_status r) @ '' '' @ t)))
          else (case res_json r of
                  Inl e \<Rightarrow> Inl e
                | Inr d \<Rightarrow>
                    if truthy (access_token d) then Inr (toStr (access_token d))
                    else Inl (Error ''Zoom token response missing access_token'')))"
  by (simp add: getZoomAccessToken_def step_defs split: fetch_result.splits sum.splits)

lemma token_step:
  "getZoomAccessToken fetch a c s = ([tokenRequest a c s], snd (getZoomAccessToken fetch a c s))"
  using token_calls [of fetch a c s] by (cases "getZoomAccessToken fetch a c s") simp

lemma token_granted:
  "grants fetch (tokenRequest a c s) tok \<Longrightarrow>
   getZoomAccessToken fetch a c s = ([tokenRequest a c s], Inr tok)"
  by (subst token_step) (auto simp: token_result grants_def answers_def truthy_def toStr_def)

lemma fetch_answered:
  "answers fetch q d \<Longrightarrow>
   and_then (await_fetch fetch q)
     (\<lambda>res. if \<not> ok res then f res else and_then (await_json res) g)
   = and_then ([q], Inr ()) (\<lambda>_. g d)"
  by (auto simp: answers_def step_defs split: prod.splits)

lemma and_then_pair:
  "and_then (cs, Inr x) f = (case f x of (cs', r) \<Rightarrow> (cs @ cs', r))"
  by (simp add: and_then_def)

lemma register_calls:
  "fst (register fetch M tok b best) = [registrationRequest (regUrl M best) tok (regBody b)]"
  by (simp add: register_def step_defs split: fetch_result.splits sum.splits)

lemma register_static_calls:
  "fst (register_static fetch M tok b best)
     = [registrationRequest (regUrl_static M best) tok (regBody b)]"
  by (simp add: register_static_def step_defs split: fetch_result.splits sum.splits)

lemma handler_try_matching:
  assumes "valid_request req b" and "configured env"
    and "grants fetch (envTokenRequest env) tok"
    and "answers fetch (meetingRequest (env ''ZOOM_MEETING_ID'') tok) d"
  shows "handler_try parse env fetch req =
     and_then ([envTokenRequest env, meetingRequest (env ''ZOOM_MEETING_ID'') tok], Inr ())
       (\<lambda>_. if \<not> isFinite (getTime parse (sessionTimeSelected b))
             then result (json_reply 400 (failure ''Invalid sessionTimeSelected timestamp''))
             else case matchOccurrence parse (getTime parse (sessionTimeSelected b))
                         (occurrences_of d) of
                    (bestOccurrence, bestDiff) \<Rightarrow>
                      if bestOccurrence \<noteq> None \<and> js_gt bestDiff MAX_DIFF_MS
                      then result (json_reply 400
                             (failure ''Selected session time does not match any Zoom occurrence''))
                      else register fetch (env ''ZOOM_MEETING_ID'') tok b bestOccurrence)"
proof -
  have tok: "getZoomAccessToken fetch (env ''ZOOM_ACCOUNT_ID'') (env ''ZOOM_CLIENT_ID'')
               (env ''ZOOM_CLIENT_SECRET'') = ([envTokenRequest env], Inr tok)"
    using token_granted [OF assms(3) [unfolded envTokenRequest_def]]
    by (simp add: envTokenRequest_def)
  show ?thesis
    using assms(1,2)
    by (simp add: handler_try_def valid_request_def configured_def Let_def tok and_then_pair
          fetch_answered [OF assms(4)] split: prod.splits)
qed


lemma handler_static_try_matching:
  assumes "valid_request req b" and "configured_static env"
    and "answers fetch (meetingRequest_static (env ''ZOOM_MEETING_ID'')
                          (toStr (env ''ZOOM_ACCESS_TOKEN''))) d"
  shows "handler_static_try parse env fetch req =
     and_then ([meetingRequest_static (env ''ZOOM_MEETING_ID'')
                  (toStr (env ''ZOOM_ACCESS_TOKEN''))], Inr ())
       (\<lambda>_. case matchOccurrence_static parse (getTime parse (sessionTimeSelected b))
                    (occurrences_of d) of
               (bestOccurrence, bestDiff) \<Rightarrow>
                 register_static fetch (env ''ZOOM_MEETING_ID'')
                   (toStr (env ''ZOOM_ACCESS_TOKEN'')) b bestOccurrence)"
  using assms(1,2)
  by (simp add: handler_static_try_def valid_request_def configured_static_def Let_def
        and_then_pair fetch_answered [OF assms(3)] split: prod.splits)

lemma handler_try_responses:
  assumes "handler_try parse env fetch req = (cs, Inr r)"
  shows "(\<exists>msg. r = json_reply 400 (failure msg))
       \<or> (\<exists>msg. r = json_reply 500 (failure msg))
       \<or> (\<exists>props. r = json_reply 200 ((''success'', JBool True) # props)
              \<and> map fst props
                  = [''join_url'', ''registrant_id'', ''occurrence_id'', ''matched_start_time''])"
  using assms
  by (auto simp: handler_try_def register_def getZoomAccessToken_def step_defs Let_def
        split: if_splits prod.splits sum.splits fetch_result.splits)

lemma and_then_thrown: "and_then (cs, Inl e) f = (cs, Inl e)"
  by (simp add: and_then_def)

lemma handler_try_token_failure:
  assumes "valid_request req b" and "configured env"
    and "snd (getZoomAccessToken fetch (env ''ZOOM_ACCOUNT_ID'') (env ''ZOOM_CLIENT_ID'')
               (env ''ZOOM_CLIENT_SECRET'')) = Inl e"
  shows "handler_try parse env fetch req = ([envTokenRequest env], Inl e)"
proof -
  have "getZoomAccessToken fetch (env ''ZOOM_ACCOUNT_ID'') (env ''ZOOM_CLIENT_ID'')
               (env ''ZOOM_CLIENT_SECRET'') = ([envTokenRequest env], Inl e)"
    using token_step [of fetch "env ''ZOOM_ACCOUNT_ID''" "env ''ZOOM_CLIENT_ID''"
        "env ''ZOOM_CLIENT_SECRET''"] assms(3)
    by (simp add: envTokenRequest_def)
  then show ?thesis
    using assms(1,2)
    by (simp add: handler_try_def valid_request_def configured_def Let_def and_then_thrown)
qed

lemma token_iff_grants:
  "snd (getZoomAccessToken fetch a c s) = Inr tok \<longleftrightarrow> grants fetch (tokenRequest a c s) tok"
  by (auto simp: token_result grants_def answers_def truthy_def toStr_def
        split: fetch_result.splits sum.splits option.splits if_splits)

lemma scenario_valid:
  "valid_request (scenario_request t)
     \<lparr>fullName = Some ''Ann Lee'', email = Some ''a@x.com'', role = None,
      sessionTimeSelected = Some t\<rparr> = (t \<noteq> [])"
  by (simp add: valid_request_def scenario_request_def truthy_def)

lemma scenario_configured: "configured scenario_env" "configured_static scenario_env"
  by (simp_all add: configured_def configured_static_def scenario_env_def truthy_def)

lemma handler_calls:
  "req_method req = ''POST'' \<Longrightarrow>
   calls (handler parse env fetch req) = fst (handler_try parse env fetch req)"
  by (cases "handler_try parse env fetch req") (auto simp: handler_def split: sum.splits)

lemma handler_static_calls:
  "req_method req = ''POST'' \<Longrightarrow>
   calls (handler_static parse env fetch req) = fst (handler_static_try parse env fetch req)"
  by (cases "handler_static_try parse env fetch req")
     (auto simp: handler_static_def split: sum.splits)

lemma handler_result:
  "req_method req = ''POST'' \<Longrightarrow> handler_try parse env fetch req = (cs, Inr r) \<Longrightarrow>
   handler parse env fetch req = map Fetch cs @ [Respond r]"
  by (simp add: handler_def)

lemma handler_static_result:
  "req_method req = ''POST'' \<Longrightarrow> handler_static_try parse env fetch req = (cs, Inr r) \<Longrightarrow>
   handler_static parse env fetch req = map Fetch cs @ [Respond r]"
  by (simp add: handler_static_def)

lemma and_then_fst: "fst (and_then (cs, Inr x) f) = cs @ fst (f x)"
  by (simp add: and_then_def split: prod.splits)

lemma toJs_or_empty [simp]:
  "toJs (or_else v (Some [])) = JStr (case v of None \<Rightarrow> [] | Some s \<Rightarrow> s)"
  by (cases v) (simp_all add: toJs_def or_else_def truthy_def)

lemma or_else_value:
  "(case or_else v w of None \<Rightarrow> [] | Some s \<Rightarrow> s)
     = (if truthy v then toStr v else case w of None \<Rightarrow> [] | Some s \<Rightarrow> s)"
  by (cases v) (simp_all add: or_else_def truthy_def toStr_def)

lemma register_reply:
  "answers fetch (registrationRequest (regUrl M best) tok (regBody b)) d \<Longrightarrow>
   register fetch M tok b best
     = ([registrationRequest (regUrl M best) tok (regBody b)],
        Inr (json_reply 200
          [(''success'', JBool True),
           (''join_url'', JStr (case join_url d of None \<Rightarrow> [] | Some s \<Rightarrow> s)),
           (''registrant_id'',
              JStr (if truthy (registrant_id d) then toStr (registrant_id d)
                    else case data_id d of None \<Rightarrow> [] | Some s \<Rightarrow> s)),
           (''occurrence_id'',
              case best of None \<Rightarrow> JStr [] | Some occ \<Rightarrow> toJs (occurrence_id occ)),
           (''matched_start_time'',
              case best of None \<Rightarrow> JStr [] | Some occ \<Rightarrow> toJs (start_time occ))]))"
  by (auto simp: register_def answers_def step_defs or_else_value)

lemma register_static_reply:
  "answers fetch (registrationRequest (regUrl_static M best) tok (regBody b)) d \<Longrightarrow>
   register_static fetch M tok b best
     = ([registrationRequest (regUrl_static M best) tok (regBody b)],
        Inr (json_reply 200
          [(''success'', JBool True),
           (''join_url'', JStr (case join_url d of None \<Rightarrow> [] | Some s \<Rightarrow> s)),
           (''registrant_id'',
              JStr (if truthy (registrant_id d) then toStr (registrant_id d)
                    else case data_id d of None \<Rightarrow> [] | Some s \<Rightarrow> s)),
           (''occurrence_id'',
              case best of None \<Rightarrow> JStr [] | Some occ \<Rightarrow> toJs (occurrence_id occ))]))"
  by (auto simp: register_static_def answers_def step_defs or_else_value)

lemma register_answered:
  "answers fetch (registrationRequest (regUrl M None) tok (regBody b)) d \<Longrightarrow>
   \<exists>r. register fetch M tok b None
         = ([registrationRequest (regUrl M None) tok (regBody b)], Inr r)
       \<and> status r = 200
       \<and> property r ''occurrence_id'' = Some (JStr [])"
  by (auto simp: register_reply json_reply_def property_def sent_properties_def)

lemma register_static_answered:
  "answers fetch (registrationRequest (regUrl_static M None) tok (regBody b)) d \<Longrightarrow>
   \<exists>r. register_static fetch M tok b None
         = ([registrationRequest (regUrl_static M None) tok (regBody b)], Inr r)
       \<and> status r = 200
       \<and> property r ''occurrence_id'' = Some (JStr [])"
  by (auto simp: register_static_reply json_reply_def property_def sent_properties_def)

lemma hex_digit_no_query:
  "k < 16 \<Longrightarrow> ''0123456789ABCDEF'' ! k \<noteq> CHR ''?''"
proof -
  assume "k < 16"
  then have "''0123456789ABCDEF'' ! k \<in> set ''0123456789ABCDEF''"
    by (intro nth_mem) simp
  then show ?thesis by auto
qed

lemma percent_no_query:
  assumes "b < 256"
  shows "CHR ''?'' \<notin> set (percent b)"
proof -
  have "b div 16 < 16" using assms by simp
  moreover have "b mod 16 < 16" by simp
  ultimately show ?thesis
    using hex_digit_no_query [of "b div 16"] hex_digit_no_query [of "b mod 16"]
    by (auto simp: percent_def)
qed

lemma utf8_bytes:
  assumes "n \<in> set (utf8 c)"
  shows "n < 256"
proof -
  have c: "(of_char c :: nat) < 256" by (rule nat_of_char_less_256)
  have "(of_char c :: nat) div 64 < 4"
    by (rule less_mult_imp_div_less) (simp add: c)
  moreover have "(of_char c :: nat) mod 64 < 64" by simp
  ultimately show ?thesis
    using assms c by (auto simp: utf8_def Let_def split: if_splits)
qed

lemma question_mark_reserved: "\<not> uriUnreserved CHR ''?''"
  by (simp add: uriUnreserved_def)

lemma encoded_char_no_query:
  "CHR ''?'' \<notin> set (if uriUnreserved c then [c] else concat (map percent (utf8 c)))"
proof (cases "uriUnreserved c")
  case True
  then have "c \<noteq> CHR ''?''" using question_mark_reserved by auto
  with True show ?thesis by simp
next
  case False
  have "CHR ''?'' \<notin> set (percent n)" if "n \<in> set (utf8 c)" for n
    using that utf8_bytes percent_no_query by blast
  with False show ?thesis by auto
qed

lemma encodeURIComponent_no_query: "CHR ''?'' \<notin> set (encodeURIComponent s)"
  using encoded_char_no_query by (induction s) (auto simp: encodeURIComponent_def)

lemma match_nothing [simp]:
  "matchOccurrence parse targetTime [] = (None, PosInf)"
  "matchOccurrence_static parse targetTime [] = (None, PosInf)"
  by (simp_all add: matchOccurrence_def matchOccurrence_static_def)

lemma regUrl_None:
  "regUrl M None
     = ''https://api.zoom.us/v2/meetings/'' @ encodeURIComponent (toStr M) @ ''/registrants''"
  "regUrl_static M None = ''https://api.zoom.us/v2/meetings/'' @ toStr M @ ''/registrants''"
  by (simp_all add: regUrl_def regUrl_static_def)

section \<open>Every path of the Zoom handlers ends in one response\<close>

lemma handler_static_try_responses:
  assumes "handler_static_try parse env fetch req = (cs, Inr r)"
  shows "(\<exists>msg. r = json_reply 400 (failure msg))
       \<or> (\<exists>msg. r = json_reply 500 (failure msg))
       \<or> (\<exists>props. r = json_reply 200 ((''success'', JBool True) # props)
              \<and> map fst props = [''join_url'', ''registrant_id'', ''occurrence_id''])"
  using assms
  by (auto simp: handler_static_try_def register_static_def step_defs Let_def
        split: if_splits prod.splits sum.splits fetch_result.splits option.splits)

lemma handler_responses:
  "\<exists>r. responses (handler parse env fetch req) = [r]
     \<and> last (handler parse env fetch req) = Respond r
     \<and> (r = json_reply 405 (failure ''Method not allowed'')
          \<or> (\<exists>cs. handler_try parse env fetch req = (cs, Inr r))
          \<or> (\<exists>msg. r = json_reply 500 (failure msg)))"
  by (cases "handler_try parse env fetch req")
     (auto simp: handler_def split: sum.splits)

lemma handler_static_responses:
  "\<exists>r. responses (handler_static parse env fetch req) = [r]
     \<and> last (handler_static parse env fetch req) = Respond r
     \<and> (r = json_reply 405 (failure ''Method not allowed'')
          \<or> (\<exists>cs. handler_static_try parse env fetch req = (cs, Inr r))
          \<or> (\<exists>msg. r = json_reply 500 (failure msg)))"
  by (cases "handler_static_try parse env fetch req")
     (auto simp: handler_static_def split: sum.splits)

lemma failure_reply [simp]:
  "status (json_reply code props) = code"
  "property (json_reply code (failure msg)) ''success'' = Some (JBool False)"
  "property (json_reply code ((''success'', JBool v) # props)) ''success'' = Some (JBool v)"
  "sent_properties (json_reply code props) = filter (\<lambda>(name, v). v \<noteq> JUndefined) props"
  by (simp_all add: json_reply_def failure_def property_def sent_properties_def)

lemma parsable_start_time: "parsable parse occ \<Longrightarrow> \<exists>s. start_time occ = Some s"
  by (cases "start_time occ") (simp_all add: parsable_def getTime_def)

lemma selected_start_time:
  assumes "matchOccurrence parse targetTime occs = (Some occ, bestDiff)"
  shows "\<exists>s. start_time occ = Some s"
  using matchLoop_selects_member [of parse targetTime occs None PosInf occ bestDiff] assms
    parsable_start_time [of parse occ]
  by (simp add: matchOccurrence_def)

lemma register_success:
  assumes "register fetch M tok b best = (cs, Inr r)" and "status r = 200"
  shows "\<exists>d. answers fetch (registrationRequest (regUrl M best) tok (regBody b)) d"
  using assms
  by (auto simp: register_def answers_def step_defs
        split: fetch_result.splits sum.splits if_splits)

lemma register_static_success:
  assumes "register_static fetch M tok b best = (cs, Inr r)" and "status r = 200"
  shows "\<exists>d. answers fetch (registrationRequest (regUrl_static M best) tok (regBody b)) d"
  using assms
  by (auto simp: register_static_def answers_def step_defs
        split: fetch_result.splits sum.splits if_splits)

lemma register_shape:
  assumes "register fetch M tok b best = (cs, Inr r)" and "status r = 200"
  shows "\<exists>d :: json_data. r = json_reply 200
          [(''success'', JBool True),
           (''join_url'', JStr (case join_url d of None \<Rightarrow> [] | Some s \<Rightarrow> s)),
           (''registrant_id'',
              JStr (if truthy (registrant_id d) then toStr (registrant_id d)
                    else case data_id d of None \<Rightarrow> [] | Some s \<Rightarrow> s)),
           (''occurrence_id'',
              case best of None \<Rightarrow> JStr [] | Some occ \<Rightarrow> toJs (occurrence_id occ)),
           (''matched_start_time'',
              case best of None \<Rightarrow> JStr [] | Some occ \<Rightarrow> toJs (start_time occ))]"
proof -
  from register_success [OF assms] obtain d
    where "answers fetch (registrationRequest (regUrl M best) tok (regBody b)) d" ..
  from register_reply [OF this] assms(1)
  have eq: "r = json_reply 200
          [(''success'', JBool True),
           (''join_url'', JStr (case join_url d of None \<Rightarrow> [] | Some s \<Rightarrow> s)),
           (''registrant_id'',
              JStr (if truthy (registrant_id d) then toStr (registrant_id d)
                    else case data_id d of None \<Rightarrow> [] | Some s \<Rightarrow> s)),
           (''occurrence_id'',
              case best of None \<Rightarrow> JStr [] | Some occ \<Rightarrow> toJs (occurrence_id occ)),
           (''matched_start_time'',
              case best of None \<Rightarrow> JStr [] | Some occ \<Rightarrow> toJs (start_time occ))]"
    by (simp only: prod.inject sum.inject)
  show ?thesis by (rule exI [where x = d]) (rule eq)
qed

lemma register_static_shape:
  assumes "register_static fetch M tok b best = (cs, Inr r)" and "status r = 200"
  shows "\<exists>d :: json_data. r = json_reply 200
          [(''success'', JBool True),
           (''join_url'', JStr (case join_url d of None \<Rightarrow> [] | Some s \<Rightarrow> s)),
           (''registrant_id'',
              JStr (if truthy (registrant_id d) then toStr (registrant_id d)
                    else case data_id d of None \<Rightarrow> [] | Some s \<Rightarrow> s)),
           (''occurrence_id'',
              case best of None \<Rightarrow> JStr [] | Some occ \<Rightarrow> toJs (occurrence_id occ))]"
proof -
  from register_static_success [OF assms] obtain d
    where "answers fetch (registrationRequest (regUrl_static M best) tok (regBody b)) d" ..
  from register_static_reply [OF this] assms(1)
  have eq: "r = json_reply 200
          [(''success'', JBool True),
           (''join_url'', JStr (case join_url d of None \<Rightarrow> [] | Some s \<Rightarrow> s)),
           (''registrant_id'',
              JStr (if truthy (registrant_id d) then toStr (registrant_id d)
                    else case data_id d of None \<Rightarrow> [] | Some s \<Rightarrow> s)),
           (''occurrence_id'',
              case best of None \<Rightarrow> JStr [] | Some occ \<Rightarrow> toJs (occurrence_id occ))]"
    by (simp only: prod.inject sum.inject)
  show ?thesis by (rule exI [where x = d]) (rule eq)
qed

lemma handler_try_success:
  assumes "handler_try parse env fetch req = (cs, Inr r)" and "status r = 200"
  shows "\<exists>M tok (b :: zoom_body) best bestDiff targetTime occs cs'.
           matchOccurrence parse targetTime occs = (best, bestDiff)
           \<and> register fetch M tok b best = (cs', Inr r)"
  using assms
  apply (auto simp: handler_try_def getZoomAccessToken_def step_defs Let_def
        split: if_splits prod.splits sum.splits fetch_result.splits)
   apply blast+
  done

lemma handler_static_try_success:
  assumes "handler_static_try parse env fetch req = (cs, Inr r)" and "status r = 200"
  shows "\<exists>M tok (b :: zoom_body) best bestDiff targetTime occs cs'.
           matchOccurrence_static parse targetTime occs = (best, bestDiff)
           \<and> register_static fetch M tok b best = (cs', Inr r)"
  using assms
  apply (auto simp: handler_static_try_def step_defs Let_def
        split: if_splits prod.splits sum.splits fetch_result.splits option.splits)
  apply blast+
  done

lemma sent_success_reply:
  "sent_properties (json_reply 200
          [(''success'', JBool True),
           (''join_url'', JStr j),
           (''registrant_id'', JStr g),
           (''occurrence_id'',
              case best of None \<Rightarrow> JStr [] | Some occ \<Rightarrow> toJs (occurrence_id occ)),
           (''matched_start_time'',
              case best of None \<Rightarrow> JStr [] | Some occ \<Rightarrow> toJs (start_time occ))])
   = [(''success'', JBool True), (''join_url'', JStr j), (''registrant_id'', JStr g)]
     @ (case best of
          None \<Rightarrow> [(''occurrence_id'', JStr [])]
        | Some occ \<Rightarrow>
            (case occurrence_id occ of None \<Rightarrow> [] | Some i \<Rightarrow> [(''occurrence_id'', JStr i)]))
     @ (case best of
          None \<Rightarrow> [(''matched_start_time'', JStr [])]
        | Some occ \<Rightarrow>
            (case start_time occ of
               None \<Rightarrow> []
             | Some s \<Rightarrow> [(''matched_start_time'', JStr s)]))"
  by (simp add: toJs_def split: option.splits)

lemma sent_success_reply_static:
  "sent_properties (json_reply 200
          [(''success'', JBool True),
           (''join_url'', JStr j),
           (''registrant_id'', JStr g),
           (''occurrence_id'',
              case best of None \<Rightarrow> JStr [] | Some occ \<Rightarrow> toJs (occurrence_id occ))])
   = [(''success'', JBool True), (''join_url'', JStr j), (''registrant_id'', JStr g)]
     @ (case best of
          None \<Rightarrow> [(''occurrence_id'', JStr [])]
        | Some occ \<Rightarrow>
            (case occurrence_id occ of None \<Rightarrow> [] | Some i \<Rightarrow> [(''occurrence_id'', JStr i)]))"
  by (simp add: toJs_def split: option.splits)

lemma success_names:
  assumes "handler_try parse env fetch req = (cs, Inr r)" and "status r = 200"
  shows "property r ''success'' = Some (JBool True) \<and> property r ''error'' = None
       \<and> (property_names r
              = [''success'', ''join_url'', ''registrant_id'', ''occurrence_id'',
                 ''matched_start_time'']
            \<or> property_names r
              = [''success'', ''join_url'', ''registrant_id'', ''matched_start_time''])"
proof -
  from handler_try_success [OF assms]
  obtain M tok and b :: zoom_body and best bestDiff targetTime occs cs'
    where m: "matchOccurrence parse targetTime occs = (best, bestDiff)"
      and reg: "register fetch M tok b best = (cs', Inr r)"
    by blast
  from register_shape [OF reg assms(2)] obtain d :: json_data
    where r: "r = json_reply 200
          [(''success'', JBool True),
           (''join_url'', JStr (case join_url d of None \<Rightarrow> [] | Some s \<Rightarrow> s)),
           (''registrant_id'',
              JStr (if truthy (registrant_id d) then toStr (registrant_id d)
                    else case data_id d of None \<Rightarrow> [] | Some s \<Rightarrow> s)),
           (''occurrence_id'',
              case best of None \<Rightarrow> JStr [] | Some occ \<Rightarrow> toJs (occurrence_id occ)),
           (''matched_start_time'',
              case best of None \<Rightarrow> JStr [] | Some occ \<Rightarrow> toJs (start_time occ))]"
    by blast
  have start: "\<exists>s. start_time occ = Some s" if "best = Some occ" for occ
    using selected_start_time m that by blast
  show ?thesis
  proof (cases best)
    case None
    then show ?thesis
      unfolding r property_def property_names_def sent_success_reply by simp
  next
    case (Some occ)
    with start obtain s where "start_time occ = Some s" by blast
    with Some show ?thesis
      unfolding r property_def property_names_def sent_success_reply
      by (cases "occurrence_id occ") simp_all
  qed
qed

lemma success_names_static:
  assumes "handler_static_try parse env fetch req = (cs, Inr r)" and "status r = 200"
  shows "property r ''success'' = Some (JBool True) \<and> property r ''error'' = None
       \<and> (property_names r = [''success'', ''join_url'', ''registrant_id'', ''occurrence_id'']
            \<or> property_names r = [''success'', ''join_url'', ''registrant_id''])"
proof -
  from handler_static_try_success [OF assms]
  obtain M tok and b :: zoom_body and best cs'
    where reg: "register_static fetch M tok b best = (cs', Inr r)"
    by blast
  from register_static_shape [OF reg assms(2)] obtain d :: json_data
    where r: "r = json_reply 200
          [(''success'', JBool True),
           (''join_url'', JStr (case join_url d of None \<Rightarrow> [] | Some s \<Rightarrow> s)),
           (''registrant_id'',
              JStr (if truthy (registrant_id d) then toStr (registrant_id d)
                    else case data_id d of None \<Rightarrow> [] | Some s \<Rightarrow> s)),
           (''occurrence_id'',
              case best of None \<Rightarrow> JStr [] | Some occ \<Rightarrow> toJs (occurrence_id occ))]"
    by blast
  show ?thesis
  proof (cases best)
    case None
    then show ?thesis
      unfolding r property_def property_names_def sent_success_reply_static by simp
  next
    case (Some occ)
    then show ?thesis
      unfolding r property_def property_names_def sent_success_reply_static
      by (cases "occurrence_id occ") simp_all
  qed
qed

section \<open>Runs of the scenario\<close>

text \<open>
  The scenario of the specification, evaluated: the OAuth variant makes three calls, the
  last one scoped to occurrence 1, and answers 200.
\<close>

lemma scenario_calls:
  "map url (calls (handler scenario_parse scenario_env
      (scenario_fetch (Some [occurrence1, occurrence2]))
      (scenario_request ''2024-05-01T10:00:00Z'')))
   = [''https://zoom.us/oauth/token?grant_type=account_credentials&account_id=acct'',
      ''https://api.zoom.us/v2/meetings/85746065'',
      ''https://api.zoom.us/v2/meetings/85746065/registrants?occurrence_ids=1'']"
  by code_simp

lemma scenario_response:
  "responses (handler scenario_parse scenario_env
      (scenario_fetch (Some [occurrence1, occurrence2]))
      (scenario_request ''2024-05-01T10:00:00Z''))
   = [json_reply 200
        [(''success'', JBool True),
         (''join_url'', JStr ''https://zoom.us/w/1''),
         (''registrant_id'', JStr ''r1''),
         (''occurrence_id'', JStr ''1''),
         (''matched_start_time'', JStr ''2024-05-01T09:59:00Z'')]]"
  by code_simp

lemma scenario_response_static:
  "responses (handler_static scenario_parse scenario_env
      (scenario_fetch (Some [occurrence1, occurrence2]))
      (scenario_request ''2024-05-01T10:00:00Z''))
   = [json_reply 200
        [(''success'', JBool True),
         (''join_url'', JStr ''https://zoom.us/w/1''),
         (''registrant_id'', JStr ''r1''),
         (''occurrence_id'', JStr ''1'')]]"
  by code_simp

lemma scenario_env_values:
  "scenario_env ''ZOOM_MEETING_ID'' = Some ''85746065''"
  "scenario_env ''ZOOM_ACCOUNT_ID'' = Some ''acct''"
  "scenario_env ''ZOOM_CLIENT_ID'' = Some ''id''"
  "scenario_env ''ZOOM_CLIENT_SECRET'' = Some ''secret''"
  "scenario_env ''ZOOM_ACCESS_TOKEN'' = Some ''tok''"
  by (simp_all add: scenario_env_def)

lemma scenario_urls:
  "url (envTokenRequest scenario_env :: jsval http_request)
     = ''https://zoom.us/oauth/token?grant_type=account_credentials&account_id=acct''"
  "url (meetingRequest (Some ''85746065'') tok :: jsval http_request)
     = ''https://api.zoom.us/v2/meetings/85746065''"
  "url (meetingRequest_static (Some ''85746065'') tok :: jsval http_request)
     = ''https://api.zoom.us/v2/meetings/85746065''"
  "regUrl (Some ''85746065'') None = ''https://api.zoom.us/v2/meetings/85746065/registrants''"
  "regUrl_static (Some ''85746065'') None
     = ''https://api.zoom.us/v2/meetings/85746065/registrants''"
  "regUrl (Some ''85746065'') (Some occurrence1)
     = ''https://api.zoom.us/v2/meetings/85746065/registrants?occurrence_ids=1''"
  "regUrl (Some ''85746065'') (Some occurrence3)
     = ''https://api.zoom.us/v2/meetings/85746065/registrants?occurrence_ids=3''"
  "regUrl_static (Some ''85746065'') (Some occurrence2)
     = ''https://api.zoom.us/v2/meetings/85746065/registrants?occurrence_ids=2''"
  by code_simp+

lemma scenario_grants:
  "grants (scenario_fetch occs) (envTokenRequest scenario_env) ''tok''"
  by (simp add: grants_def answers_def scenario_fetch_def scenario_urls ok_def no_data_def)

lemma scenario_meeting:
  "answers (scenario_fetch occs) (meetingRequest (scenario_env ''ZOOM_MEETING_ID'') tok)
     (no_data\<lparr>occurrences := occs\<rparr>)"
  by (simp add: answers_def scenario_fetch_def scenario_urls scenario_env_values ok_def)

lemma scenario_meeting_static:
  "answers (scenario_fetch occs)
     (meetingRequest_static (scenario_env ''ZOOM_MEETING_ID'')
        (toStr (scenario_env ''ZOOM_ACCESS_TOKEN'')))
     (no_data\<lparr>occurrences := occs\<rparr>)"
  by (simp add: answers_def scenario_fetch_def scenario_urls scenario_env_values ok_def)

lemma scenario_registration:
  assumes "u \<noteq> ''https://zoom.us/oauth/token?grant_type=account_credentials&account_id=acct''"
    and "u \<noteq> ''https://api.zoom.us/v2/meetings/85746065''"
  shows "answers (scenario_fetch occs) (registrationRequest u tok content)
     (no_data\<lparr>join_url := Some ''https://zoom.us/w/1'', registrant_id := Some ''r1''\<rparr>)"
  using assms
  by (simp add: answers_def scenario_fetch_def registrationRequest_def ok_def)

lemma scenario_target:
  "getTime scenario_parse (Some ''2024-05-01T10:00:00Z'') = Fin 1714557600000"
  "getTime scenario_parse (Some ''not a date'') = NaN"
  by (simp_all add: getTime_def scenario_parse_def)

lemma scenario_matches:
  "matchOccurrence scenario_parse (Fin 1714557600000) [occurrence3] = (Some occurrence3, Fin 21600000)"
  "matchOccurrence scenario_parse (Fin 1714557600000) [occurrence2] = (Some occurrence2, Fin 86400000)"
  by (simp_all del: matchLoop.simps(2) add: matchOccurrence_def matchLoop_step scenario_diffs)

section \<open>The handlers do not see the unparsable occurrences\<close>

lemma keep_parsable_simps [simp]:
  "access_token (keep_parsable parse d) = access_token d"
  "join_url (keep_parsable parse d) = join_url d"
  "registrant_id (keep_parsable parse d) = registrant_id d"
  "data_id (keep_parsable parse d) = data_id d"
  "occurrences_of (keep_parsable parse d) = filter (parsable parse) (occurrences_of d)"
  by (simp_all add: keep_parsable_def occurrences_of_def split: option.splits)

lemma matchOccurrence_filter:
  "matchOccurrence parse targetTime (filter (parsable parse) occs)
     = matchOccurrence parse targetTime occs"
  "matchOccurrence_static parse targetTime (filter (parsable parse) occs)
     = matchOccurrence_static parse targetTime occs"
  by (simp_all add: matchOccurrence_def matchOccurrence_static_def matchLoop_filter
        loops_agree [symmetric])

lemma token_without_unparsable:
  "getZoomAccessToken (without_unparsable parse fetch) a c s = getZoomAccessToken fetch a c s"
  by (simp add: getZoomAccessToken_def step_defs without_unparsable_def ok_def
        split: fetch_result.splits sum.splits)

lemma register_without_unparsable:
  "register (without_unparsable parse fetch) M tok b best = register fetch M tok b best"
  by (simp add: register_def step_defs without_unparsable_def ok_def
        split: fetch_result.splits sum.splits)

lemma register_static_without_unparsable:
  "register_static (without_unparsable parse fetch) M tok b best
     = register_static fetch M tok b best"
  by (simp add: register_static_def step_defs without_unparsable_def ok_def
        split: fetch_result.splits sum.splits)

lemma meeting_without_unparsable:
  assumes "\<And>d. K (keep_parsable parse d) = K' d"
  shows "and_then (await_fetch (without_unparsable parse fetch) q)
      (\<lambda>meetingRes. if \<not> ok meetingRes then and_then (await_text meetingRes) f
                     else and_then (await_json meetingRes) K)
    = and_then (await_fetch fetch q)
      (\<lambda>meetingRes. if \<not> ok meetingRes then and_then (await_text meetingRes) f
                     else and_then (await_json meetingRes) K')"
  using assms
  by (simp add: step_defs without_unparsable_def ok_def
        split: fetch_result.splits sum.splits)

lemma handler_try_without_unparsable:
  "handler_try parse env (without_unparsable parse fetch) req = handler_try parse env fetch req"
  unfolding handler_try_def Let_def token_without_unparsable register_without_unparsable
  by (simp add: meeting_without_unparsable matchOccurrence_filter cong: if_cong)

lemma handler_static_try_without_unparsable:
  "handler_static_try parse env (without_unparsable parse fetch) req
     = handler_static_try parse env fetch req"
  unfolding handler_static_try_def Let_def register_static_without_unparsable
  by (simp add: meeting_without_unparsable matchOccurrence_filter cong: if_cong option.case_cong)

section \<open>Targets that do not parse, and the distance of the best match\<close>

lemma diff_nonfinite_target:
  "\<not> isFinite targetTime \<Longrightarrow> \<not> js_lt (diff parse targetTime occ) PosInf"
  using getTime_cases [of parse "start_time occ"]
  by (cases targetTime) (auto simp: diff_def)

lemma matchLoop_nonfinite_target:
  "\<not> isFinite targetTime \<Longrightarrow>
   matchLoop parse targetTime occs (best, PosInf) = (best, PosInf)"
  by (induction occs) (simp_all del: matchLoop.simps(2) add: matchLoop_step diff_nonfinite_target)

lemma matchOccurrence_nonfinite_target:
  assumes "\<not> isFinite targetTime"
  shows "matchOccurrence parse targetTime occs = (None, PosInf)"
    and "matchOccurrence_static parse targetTime occs = (None, PosInf)"
  using matchLoop_nonfinite_target [OF assms]
  by (simp_all add: matchOccurrence_def matchOccurrence_static_def loops_agree [symmetric])

lemma selected_diff_finite:
  assumes "matchOccurrence parse targetTime occs = (Some occ, bestDiff)"
  shows "isFinite targetTime" and "\<exists>dist. bestDiff = Fin dist"
proof -
  show t: "isFinite targetTime"
    using assms matchOccurrence_nonfinite_target(1) [of targetTime parse occs] by auto
  let ?ps = "filter (parsable parse) occs"
  have fin: "\<forall>occ \<in> set ?ps. \<exists>e. diff parse targetTime occ = Fin e"
    using diff_parsable [OF t] by auto
  have "matchLoop parse targetTime ?ps (None, PosInf) = (Some occ, bestDiff)"
    using assms by (simp add: matchOccurrence_def matchLoop_filter)
  with matchLoop_min [OF fin, of PosInf None]
  show "\<exists>dist. bestDiff = Fin dist"
    by auto
qed

lemma handler_try_unparsable_target:
  assumes "valid_request req b" and "configured env"
    and "\<not> isFinite (getTime parse (sessionTimeSelected b))"
  shows "(fst (handler_try parse env fetch req) = [envTokenRequest env]
          \<or> (\<exists>tok. fst (handler_try parse env fetch req)
                      = [envTokenRequest env, meetingRequest (env ''ZOOM_MEETING_ID'') tok]))"
proof -
  let ?tok = "getZoomAccessToken fetch (env ''ZOOM_ACCOUNT_ID'') (env ''ZOOM_CLIENT_ID'')
                (env ''ZOOM_CLIENT_SECRET'')"
  have step: "?tok = ([envTokenRequest env], snd ?tok)"
    using token_step [of fetch "env ''ZOOM_ACCOUNT_ID''" "env ''ZOOM_CLIENT_ID''"
        "env ''ZOOM_CLIENT_SECRET''"]
    by (simp add: envTokenRequest_def)
  show ?thesis
  proof (cases "snd ?tok")
    case (Inl e)
    then have "handler_try parse env fetch req = ([envTokenRequest env], Inl e)"
      using handler_try_token_failure [OF assms(1,2)] by blast
    then show ?thesis by simp
  next
    case (Inr tok)
    with step have tok: "?tok = ([envTokenRequest env], Inr tok)" by simp
    have "fst (handler_try parse env fetch req)
            = [envTokenRequest env, meetingRequest (env ''ZOOM_MEETING_ID'') tok]"
      using assms
      by (simp add: handler_try_def valid_request_def configured_def Let_def tok and_then_fst
            step_defs split: fetch_result.splits sum.splits)
    then show ?thesis by blast
  qed
qed

section \<open>The claims of the specification\<close>

subsection \<open>C1: a target time that does not parse\<close>

text \<open>
  C1 (amended). For every POST request that has the three required fields and whose
  \<open>sessionTimeSelected\<close> does not parse: the OAuth variant, when configured, makes the
  token exchange and, if that succeeds, the meeting fetch, and no other call, so never
  the registration; when both calls succeed it answers 400 with \<open>success: false\<close> and
  "Invalid sessionTimeSelected timestamp". The static-token variant has no such check:
  when its meeting fetch succeeds it selects no occurrence and makes the registration
  call without \<open>occurrence_ids\<close>.
\<close>

theorem unparsable_target:
  assumes "valid_request req b"
    and "\<not> isFinite (getTime parse (sessionTimeSelected b))"
  shows "(configured env \<longrightarrow>
            calls (handler parse env fetch req) = [envTokenRequest env]
            \<or> (\<exists>tok. calls (handler parse env fetch req)
                        = [envTokenRequest env, meetingRequest (env ''ZOOM_MEETING_ID'') tok]))
       \<and> (configured env \<and> grants fetch (envTokenRequest env) tok
            \<and> answers fetch (meetingRequest (env ''ZOOM_MEETING_ID'') tok) d \<longrightarrow>
            handler parse env fetch req
              = [Fetch (envTokenRequest env),
                 Fetch (meetingRequest (env ''ZOOM_MEETING_ID'') tok),
                 Respond (json_reply 400 (failure ''Invalid sessionTimeSelected timestamp''))])
       \<and> (configured_static env
            \<and> answers fetch (meetingRequest_static (env ''ZOOM_MEETING_ID'')
                               (toStr (env ''ZOOM_ACCESS_TOKEN''))) d \<longrightarrow>
            matchOccurrence_static parse (getTime parse (sessionTimeSelected b))
                (occurrences_of d) = (None, PosInf)
            \<and> calls (handler_static parse env fetch req)
                = [meetingRequest_static (env ''ZOOM_MEETING_ID'')
                     (toStr (env ''ZOOM_ACCESS_TOKEN'')),
                   registrationRequest (regUrl_static (env ''ZOOM_MEETING_ID'') None)
                     (toStr (env ''ZOOM_ACCESS_TOKEN'')) (regBody b)])"
proof (intro conjI impI)
  have post: "req_method req = ''POST''"
    using assms(1) by (simp add: valid_request_def)
  let ?T = "getTime parse (sessionTimeSelected b)"
  let ?M = "env ''ZOOM_MEETING_ID''"
  let ?K = "toStr (env ''ZOOM_ACCESS_TOKEN'')"
  {
    assume "configured env"
    from handler_try_unparsable_target [OF assms(1) this assms(2), of fetch]
    show "calls (handler parse env fetch req) = [envTokenRequest env]
            \<or> (\<exists>tok. calls (handler parse env fetch req)
                        = [envTokenRequest env, meetingRequest ?M tok])"
      by (simp add: handler_calls [OF post])
  }
  {
    assume h: "configured env \<and> grants fetch (envTokenRequest env) tok
            \<and> answers fetch (meetingRequest ?M tok) d"
    have "handler_try parse env fetch req
            = ([envTokenRequest env, meetingRequest ?M tok],
               Inr (json_reply 400 (failure ''Invalid sessionTimeSelected timestamp'')))"
      using handler_try_matching [OF assms(1), of env fetch tok d parse] h assms(2)
      by (simp add: and_then_pair result_def)
    from handler_result [OF post this]
    show "handler parse env fetch req
              = [Fetch (envTokenRequest env), Fetch (meetingRequest ?M tok),
                 Respond (json_reply 400 (failure ''Invalid sessionTimeSelected timestamp''))]"
      by simp
  }
  {
    assume h: "configured_static env \<and> answers fetch (meetingRequest_static ?M ?K) d"
    show none: "matchOccurrence_static parse ?T (occurrences_of d) = (None, PosInf)"
      using assms(2) by (rule matchOccurrence_nonfinite_target(2))
    have "handler_static_try parse env fetch req
        = and_then ([meetingRequest_static ?M ?K], Inr ())
            (\<lambda>_. register_static fetch ?M ?K b None)"
      using handler_static_try_matching [OF assms(1), of env fetch d parse] h
      by (simp add: none)
    then show "calls (handler_static parse env fetch req)
                = [meetingRequest_static ?M ?K,
                   registrationRequest (regUrl_static ?M None) ?K (regBody b)]"
      by (simp add: handler_static_calls [OF post] and_then_fst register_static_calls)
  }
qed

theorem unparsable_target_witness:
  "valid_request (scenario_request ''not a date'')
     \<lparr>fullName = Some ''Ann Lee'', email = Some ''a@x.com'', role = None,
      sessionTimeSelected = Some ''not a date''\<rparr>
   \<and> \<not> isFinite (getTime scenario_parse (Some ''not a date''))
   \<and> configured scenario_env
   \<and> grants (scenario_fetch (Some [occurrence1, occurrence2])) (envTokenRequest scenario_env)
        ''tok''
   \<and> answers (scenario_fetch (Some [occurrence1, occurrence2]))
        (meetingRequest (scenario_env ''ZOOM_MEETING_ID'') ''tok'')
        (no_data\<lparr>occurrences := Some [occurrence1, occurrence2]\<rparr>)
   \<and> handler scenario_parse scenario_env (scenario_fetch (Some [occurrence1, occurrence2]))
        (scenario_request ''not a date'')
     = [Fetch (envTokenRequest scenario_env),
        Fetch (meetingRequest (scenario_env ''ZOOM_MEETING_ID'') ''tok''),
        Respond (json_reply 400 (failure ''Invalid sessionTimeSelected timestamp''))]
   \<and> configured_static scenario_env
   \<and> answers (scenario_fetch (Some [occurrence1, occurrence2]))
        (meetingRequest_static (scenario_env ''ZOOM_MEETING_ID'')
           (toStr (scenario_env ''ZOOM_ACCESS_TOKEN'')))
        (no_data\<lparr>occurrences := Some [occurrence1, occurrence2]\<rparr>)
   \<and> map url (calls (handler_static scenario_parse scenario_env
                        (scenario_fetch (Some [occurrence1, occurrence2]))
                        (scenario_request ''not a date'')))
     = [''https://api.zoom.us/v2/meetings/85746065'',
        ''https://api.zoom.us/v2/meetings/85746065/registrants'']"
proof -
  let ?b = "\<lparr>fullName = Some ''Ann Lee'', email = Some ''a@x.com'', role = None,
             sessionTimeSelected = Some ''not a date''\<rparr>"
  let ?occs = "Some [occurrence1, occurrence2]"
  have valid: "valid_request (scenario_request ''not a date'') ?b"
    by (simp add: scenario_valid)
  have bad: "\<not> isFinite (getTime scenario_parse (sessionTimeSelected ?b))"
    by (simp add: scenario_target)
  note U = unparsable_target [OF valid bad, of scenario_env "scenario_fetch ?occs" "''tok''"
      "no_data\<lparr>occurrences := ?occs\<rparr>"]
  note oauth = U [THEN conjunct2, THEN conjunct1, rule_format]
  note static = U [THEN conjunct2, THEN conjunct2, rule_format, THEN conjunct2]
  have a: "handler scenario_parse scenario_env (scenario_fetch ?occs)
        (scenario_request ''not a date'')
     = [Fetch (envTokenRequest scenario_env),
        Fetch (meetingRequest (scenario_env ''ZOOM_MEETING_ID'') ''tok''),
        Respond (json_reply 400 (failure ''Invalid sessionTimeSelected timestamp''))]"
    by (rule oauth) (simp add: scenario_configured scenario_grants scenario_meeting)
  have "calls (handler_static scenario_parse scenario_env (scenario_fetch ?occs)
                 (scenario_request ''not a date''))
     = [meetingRequest_static (scenario_env ''ZOOM_MEETING_ID'')
          (toStr (scenario_env ''ZOOM_ACCESS_TOKEN'')),
        registrationRequest (regUrl_static (scenario_env ''ZOOM_MEETING_ID'') None)
          (toStr (scenario_env ''ZOOM_ACCESS_TOKEN'')) (regBody ?b)]"
    by (rule static) (simp add: scenario_configured scenario_meeting_static)
  then have s: "map url (calls (handler_static scenario_parse scenario_env (scenario_fetch ?occs)
                        (scenario_request ''not a date'')))
     = [''https://api.zoom.us/v2/meetings/85746065'',
        ''https://api.zoom.us/v2/meetings/85746065/registrants'']"
    by (simp add: scenario_env_values scenario_urls registrationRequest_def)
  from valid bad a s show ?thesis
    by (simp add: scenario_configured scenario_grants scenario_meeting scenario_meeting_static)
qed

theorem unparsable_target_counterexample:
  "map url (calls (handler scenario_parse scenario_env
                     (scenario_fetch (Some [occurrence1, occurrence2]))
                     (scenario_request ''not a date'')))
     = [''https://zoom.us/oauth/token?grant_type=account_credentials&account_id=acct'',
        ''https://api.zoom.us/v2/meetings/85746065'']
   \<and> map status (responses (handler scenario_parse scenario_env
                     (scenario_fetch (Some [occurrence1, occurrence2]))
                     (scenario_request ''not a date''))) = [400]
   \<and> map url (calls (handler_static scenario_parse scenario_env
                     (scenario_fetch (Some [occurrence1, occurrence2]))
                     (scenario_request ''not a date'')))
     = [''https://api.zoom.us/v2/meetings/85746065'',
        ''https://api.zoom.us/v2/meetings/85746065/registrants'']
   \<and> map status (responses (handler_static scenario_parse scenario_env
                     (scenario_fetch (Some [occurrence1, occurrence2]))
                     (scenario_request ''not a date''))) = [200]"
  by code_simp

subsection \<open>C2: the closest occurrence, the first among equals\<close>

text \<open>
  C2. For every occurrence list in which every \<open>start_time\<close> parses, and every
  parsable target time, the matching loop of either variant selects the occurrence that
  minimises \<open>diff\<close>, that is \<open>Math.abs(occTime - targetTime)\<close>; among several
  occurrences with the least difference it selects the first in list order, and it
  selects none only when the list is empty. The result holds at most one occurrence.
  (\<open>diff\<close> is the absolute difference itself whenever that is at most \<open>2^53\<close> ms,
  see \<open>diff_exact\<close>.)
\<close>

theorem closest_occurrence_first:
  assumes "isFinite targetTime"
    and "\<forall>occ \<in> set occs. parsable parse occ"
  shows "matchOccurrence_static parse targetTime occs = matchOccurrence parse targetTime occs
    \<and> (occs = [] \<longrightarrow> matchOccurrence parse targetTime occs = (None, PosInf))
    \<and> (occs \<noteq> [] \<longrightarrow>
          (\<exists>i<length occs. \<exists>d.
              matchOccurrence parse targetTime occs = (Some (occs ! i), Fin d)
              \<and> diff parse targetTime (occs ! i) = Fin d
              \<and> (\<forall>j<length occs. \<exists>e. diff parse targetTime (occs ! j) = Fin e \<and> d \<le> e
                     \<and> (j < i \<longrightarrow> d < e))))"
proof (intro conjI impI)
  show "matchOccurrence_static parse targetTime occs = matchOccurrence parse targetTime occs"
    by (simp add: matchOccurrence_def matchOccurrence_static_def loops_agree)
next
  assume "occs = []"
  then show "matchOccurrence parse targetTime occs = (None, PosInf)"
    by (simp add: matchOccurrence_def)
next
  assume ne: "occs \<noteq> []"
  have fin: "\<forall>occ \<in> set occs. \<exists>e. diff parse targetTime occ = Fin e"
    using assms diff_parsable by blast
  from ne obtain e0 where e0: "diff parse targetTime (occs ! 0) = Fin e0"
    using fin by (metis length_greater_0_conv nth_mem)
  have "js_lt (diff parse targetTime (occs ! 0)) PosInf"
    by (simp add: e0)
  then have "\<not> (\<forall>j<length occs. \<not> js_lt (diff parse targetTime (occs ! j)) PosInf)"
    using ne by auto
  with matchLoop_min [OF fin, of PosInf None]
  show "\<exists>i<length occs. \<exists>d.
              matchOccurrence parse targetTime occs = (Some (occs ! i), Fin d)
              \<and> diff parse targetTime (occs ! i) = Fin d
              \<and> (\<forall>j<length occs. \<exists>e. diff parse targetTime (occs ! j) = Fin e \<and> d \<le> e
                     \<and> (j < i \<longrightarrow> d < e))"
    unfolding matchOccurrence_def by blast
qed

theorem closest_occurrence_first_witness:
  "isFinite (Fin 1714557600000)
   \<and> parsable scenario_parse occurrence2
   \<and> parsable scenario_parse occurrence1
   \<and> matchOccurrence scenario_parse (Fin 1714557600000)
        [occurrence2, occurrence1, occurrence1]
      = (Some occurrence1, Fin 60000)
   \<and> matchOccurrence_static scenario_parse (Fin 1714557600000)
        [occurrence2, occurrence1, occurrence1]
      = (Some occurrence1, Fin 60000)"
proof -
  let ?occs = "[occurrence2, occurrence1, occurrence1]"
  let ?t = "Fin 1714557600000"
  have h1: "isFinite ?t" by simp
  have h2: "\<forall>occ \<in> set ?occs. parsable scenario_parse occ"
    by (simp add: scenario_parsable)
  have run: "matchOccurrence scenario_parse ?t ?occs = (Some occurrence1, Fin 60000)"
    by (simp del: matchLoop.simps(2)
          add: matchOccurrence_def matchLoop_step scenario_diffs)
  from closest_occurrence_first [OF h1 h2]
  have "matchOccurrence_static scenario_parse ?t ?occs
          = matchOccurrence scenario_parse ?t ?occs"
    by (rule conjunct1)
  with run h1 show ?thesis
    by (simp add: scenario_parsable)
qed

subsection \<open>C3: the six-hour guardrail\<close>

text \<open>
  C3 (amended). For every request on which an occurrence is selected, at the distance
  \<open>dist\<close> from the target: the OAuth variant answers 400 with \<open>success: false\<close>
  and makes no registration call when \<open>dist\<close> is strictly greater than 6 hours
  (\<open>6 * 60 * 60 * 1000\<close> ms), and goes on to the registration call for that
  occurrence when \<open>dist\<close> is at most 6 hours, exactly 6 hours included. The
  static-token variant has no such guardrail: it makes the registration call for the
  selected occurrence whatever the distance.
\<close>

theorem distance_guardrail:
  assumes "valid_request req b"
    and "matchOccurrence parse (getTime parse (sessionTimeSelected b)) (occurrences_of d)
           = (Some occ, Fin dist)"
  shows "(configured env \<and> grants fetch (envTokenRequest env) tok
            \<and> answers fetch (meetingRequest (env ''ZOOM_MEETING_ID'') tok) d \<longrightarrow>
            (6 * 60 * 60 * 1000 < dist \<longrightarrow>
               handler parse env fetch req
                 = [Fetch (envTokenRequest env),
                    Fetch (meetingRequest (env ''ZOOM_MEETING_ID'') tok),
                    Respond (json_reply 400
                      (failure ''Selected session time does not match any Zoom occurrence''))])
            \<and> (dist \<le> 6 * 60 * 60 * 1000 \<longrightarrow>
               calls (handler parse env fetch req)
                 = [envTokenRequest env, meetingRequest (env ''ZOOM_MEETING_ID'') tok,
                    registrationRequest (regUrl (env ''ZOOM_MEETING_ID'') (Some occ)) tok
                      (regBody b)]))
       \<and> (configured_static env
            \<and> answers fetch (meetingRequest_static (env ''ZOOM_MEETING_ID'')
                               (toStr (env ''ZOOM_ACCESS_TOKEN''))) d \<longrightarrow>
            calls (handler_static parse env fetch req)
              = [meetingRequest_static (env ''ZOOM_MEETING_ID'')
                   (toStr (env ''ZOOM_ACCESS_TOKEN'')),
                 registrationRequest (regUrl_static (env ''ZOOM_MEETING_ID'') (Some occ))
                   (toStr (env ''ZOOM_ACCESS_TOKEN'')) (regBody b)])"
proof (intro conjI impI)
  have post: "req_method req = ''POST''"
    using assms(1) by (simp add: valid_request_def)
  let ?T = "getTime parse (sessionTimeSelected b)"
  let ?M = "env ''ZOOM_MEETING_ID''"
  let ?K = "toStr (env ''ZOOM_ACCESS_TOKEN'')"
  have target: "isFinite ?T"
    using assms(2) by (rule selected_diff_finite(1))
  {
    assume h: "configured env \<and> grants fetch (envTokenRequest env) tok
            \<and> answers fetch (meetingRequest ?M tok) d"
    note stage = handler_try_matching [OF assms(1), of env fetch tok d parse]
    {
      assume far: "6 * 60 * 60 * 1000 < dist"
      have "handler_try parse env fetch req
            = ([envTokenRequest env, meetingRequest ?M tok],
               Inr (json_reply 400
                 (failure ''Selected session time does not match any Zoom occurrence'')))"
        using stage h target assms(2) far
        by (simp add: and_then_pair result_def js_gt_def MAX_DIFF_MS_def)
      from handler_result [OF post this]
      show "handler parse env fetch req
                 = [Fetch (envTokenRequest env), Fetch (meetingRequest ?M tok),
                    Respond (json_reply 400
                      (failure ''Selected session time does not match any Zoom occurrence''))]"
        by simp
    }
    {
      assume near: "dist \<le> 6 * 60 * 60 * 1000"
      have "handler_try parse env fetch req
            = and_then ([envTokenRequest env, meetingRequest ?M tok], Inr ())
                (\<lambda>_. register fetch ?M tok b (Some occ))"
        using stage h target assms(2) near
        by (simp add: js_gt_def MAX_DIFF_MS_def)
      then show "calls (handler parse env fetch req)
                 = [envTokenRequest env, meetingRequest ?M tok,
                    registrationRequest (regUrl ?M (Some occ)) tok (regBody b)]"
        by (simp add: handler_calls [OF post] and_then_fst register_calls)
    }
  }
  {
    assume h: "configured_static env \<and> answers fetch (meetingRequest_static ?M ?K) d"
    have sel: "matchOccurrence_static parse ?T (occurrences_of d) = (Some occ, Fin dist)"
      using assms(2) by (simp add: matchOccurrence_def matchOccurrence_static_def loops_agree)
    have "handler_static_try parse env fetch req
        = and_then ([meetingRequest_static ?M ?K], Inr ())
            (\<lambda>_. register_static fetch ?M ?K b (Some occ))"
      using handler_static_try_matching [OF assms(1), of env fetch d parse] h
      by (simp add: sel)
    then show "calls (handler_static parse env fetch req)
              = [meetingRequest_static ?M ?K,
                 registrationRequest (regUrl_static ?M (Some occ)) ?K (regBody b)]"
      by (simp add: handler_static_calls [OF post] and_then_fst register_static_calls)
  }
qed

theorem distance_guardrail_witness:
  "valid_request (scenario_request ''2024-05-01T10:00:00Z'')
     \<lparr>fullName = Some ''Ann Lee'', email = Some ''a@x.com'', role = None,
      sessionTimeSelected = Some ''2024-05-01T10:00:00Z''\<rparr>
   \<and> configured scenario_env \<and> configured_static scenario_env
   \<and> matchOccurrence scenario_parse (getTime scenario_parse (Some ''2024-05-01T10:00:00Z''))
        [occurrence2] = (Some occurrence2, Fin 86400000)
   \<and> (6 * 60 * 60 * 1000 < (86400000 :: int))
   \<and> handler scenario_parse scenario_env (scenario_fetch (Some [occurrence2]))
        (scenario_request ''2024-05-01T10:00:00Z'')
     = [Fetch (envTokenRequest scenario_env),
        Fetch (meetingRequest (scenario_env ''ZOOM_MEETING_ID'') ''tok''),
        Respond (json_reply 400
          (failure ''Selected session time does not match any Zoom occurrence''))]
   \<and> matchOccurrence scenario_parse (getTime scenario_parse (Some ''2024-05-01T10:00:00Z''))
        [occurrence3] = (Some occurrence3, Fin 21600000)
   \<and> ((21600000 :: int) \<le> 6 * 60 * 60 * 1000)
   \<and> map url (calls (handler scenario_parse scenario_env (scenario_fetch (Some [occurrence3]))
                        (scenario_request ''2024-05-01T10:00:00Z'')))
     = [''https://zoom.us/oauth/token?grant_type=account_credentials&account_id=acct'',
        ''https://api.zoom.us/v2/meetings/85746065'',
        ''https://api.zoom.us/v2/meetings/85746065/registrants?occurrence_ids=3'']
   \<and> map url (calls (handler_static scenario_parse scenario_env
                        (scenario_fetch (Some [occurrence2]))
                        (scenario_request ''2024-05-01T10:00:00Z'')))
     = [''https://api.zoom.us/v2/meetings/85746065'',
        ''https://api.zoom.us/v2/meetings/85746065/registrants?occurrence_ids=2'']"
proof -
  let ?t = "''2024-05-01T10:00:00Z''"
  let ?b = "\<lparr>fullName = Some ''Ann Lee'', email = Some ''a@x.com'', role = None,
             sessionTimeSelected = Some ?t\<rparr>"
  have valid: "valid_request (scenario_request ?t) ?b"
    by (simp add: scenario_valid)
  have far: "matchOccurrence scenario_parse (getTime scenario_parse (sessionTimeSelected ?b))
        (occurrences_of (no_data\<lparr>occurrences := Some [occurrence2]\<rparr>))
      = (Some occurrence2, Fin 86400000)"
    by (simp add: scenario_target scenario_matches occurrences_of_def)
  have near: "matchOccurrence scenario_parse (getTime scenario_parse (sessionTimeSelected ?b))
        (occurrences_of (no_data\<lparr>occurrences := Some [occurrence3]\<rparr>))
      = (Some occurrence3, Fin 21600000)"
    by (simp add: scenario_target scenario_matches occurrences_of_def)
  note F = distance_guardrail [OF valid far, of scenario_env "scenario_fetch (Some [occurrence2])"
      "''tok''"]
  note N = distance_guardrail [OF valid near, of scenario_env "scenario_fetch (Some [occurrence3])"
      "''tok''"]
  have rejected: "handler scenario_parse scenario_env (scenario_fetch (Some [occurrence2]))
        (scenario_request ?t)
     = [Fetch (envTokenRequest scenario_env),
        Fetch (meetingRequest (scenario_env ''ZOOM_MEETING_ID'') ''tok''),
        Respond (json_reply 400
          (failure ''Selected session time does not match any Zoom occurrence''))]"
    by (rule F [THEN conjunct1, rule_format, THEN conjunct1, rule_format])
       (simp_all add: scenario_configured scenario_grants scenario_meeting)
  have "calls (handler scenario_parse scenario_env (scenario_fetch (Some [occurrence3]))
                 (scenario_request ?t))
     = [envTokenRequest scenario_env, meetingRequest (scenario_env ''ZOOM_MEETING_ID'') ''tok'',
        registrationRequest (regUrl (scenario_env ''ZOOM_MEETING_ID'') (Some occurrence3)) ''tok''
          (regBody ?b)]"
    by (rule N [THEN conjunct1, rule_format, THEN conjunct2, rule_format])
       (simp_all add: scenario_configured scenario_grants scenario_meeting)
  then have accepted:
    "map url (calls (handler scenario_parse scenario_env (scenario_fetch (Some [occurrence3]))
                        (scenario_request ?t)))
     = [''https://zoom.us/oauth/token?grant_type=account_credentials&account_id=acct'',
        ''https://api.zoom.us/v2/meetings/85746065'',
        ''https://api.zoom.us/v2/meetings/85746065/registrants?occurrence_ids=3'']"
    by (simp add: scenario_env_values scenario_urls registrationRequest_def)
  have "calls (handler_static scenario_parse scenario_env (scenario_fetch (Some [occurrence2]))
                 (scenario_request ?t))
     = [meetingRequest_static (scenario_env ''ZOOM_MEETING_ID'')
          (toStr (scenario_env ''ZOOM_ACCESS_TOKEN'')),
        registrationRequest (regUrl_static (scenario_env ''ZOOM_MEETING_ID'') (Some occurrence2))
          (toStr (scenario_env ''ZOOM_ACCESS_TOKEN'')) (regBody ?b)]"
    by (rule F [THEN conjunct2, rule_format])
       (simp add: scenario_configured scenario_meeting_static)
  then have static:
    "map url (calls (handler_static scenario_parse scenario_env
                        (scenario_fetch (Some [occurrence2])) (scenario_request ?t)))
     = [''https://api.zoom.us/v2/meetings/85746065'',
        ''https://api.zoom.us/v2/meetings/85746065/registrants?occurrence_ids=2'']"
    by (simp add: scenario_env_values scenario_urls registrationRequest_def)
  from valid rejected accepted static show ?thesis
    by (simp add: scenario_configured scenario_target scenario_matches)
qed

theorem distance_guardrail_counterexample:
  "matchOccurrence_static scenario_parse (Fin 1714557600000) [occurrence2]
     = (Some occurrence2, Fin 86400000)
   \<and> map url (calls (handler_static scenario_parse scenario_env
                     (scenario_fetch (Some [occurrence2]))
                     (scenario_request ''2024-05-01T10:00:00Z'')))
     = [''https://api.zoom.us/v2/meetings/85746065'',
        ''https://api.zoom.us/v2/meetings/85746065/registrants?occurrence_ids=2'']
   \<and> map status (responses (handler_static scenario_parse scenario_env
                     (scenario_fetch (Some [occurrence2]))
                     (scenario_request ''2024-05-01T10:00:00Z''))) = [200]"
  by code_simp

subsection \<open>C4: occurrences that do not parse\<close>

text \<open>
  C4. Occurrences whose \<open>start_time\<close> does not parse take no part in the matching,
  in either variant: the loop's result on a list is its result on the list without
  them, an occurrence it selects is a parsable member of the list, and a handler
  behaves on an upstream exactly as on the same upstream with these entries removed
  from its payloads, so their presence never makes a request fail.
\<close>

theorem unparsable_occurrences_skipped:
  "matchOccurrence parse targetTime occs
     = matchOccurrence parse targetTime (filter (parsable parse) occs)
   \<and> matchOccurrence_static parse targetTime occs
     = matchOccurrence_static parse targetTime (filter (parsable parse) occs)
   \<and> (\<forall>occ d. matchOccurrence parse targetTime occs = (Some occ, d)
          \<longrightarrow> occ \<in> set occs \<and> parsable parse occ)
   \<and> (\<forall>occ d. matchOccurrence_static parse targetTime occs = (Some occ, d)
          \<longrightarrow> occ \<in> set occs \<and> parsable parse occ)
   \<and> handler parse env (without_unparsable parse fetch) req = handler parse env fetch req
   \<and> handler_static parse env (without_unparsable parse fetch) req
     = handler_static parse env fetch req"
proof (intro conjI allI impI)
  show "matchOccurrence parse targetTime occs
     = matchOccurrence parse targetTime (filter (parsable parse) occs)"
    by (simp add: matchOccurrence_filter)
  show "matchOccurrence_static parse targetTime occs
     = matchOccurrence_static parse targetTime (filter (parsable parse) occs)"
    by (simp add: matchOccurrence_filter)
  show "handler parse env (without_unparsable parse fetch) req = handler parse env fetch req"
    by (simp add: handler_def handler_try_without_unparsable)
  show "handler_static parse env (without_unparsable parse fetch) req
     = handler_static parse env fetch req"
    by (simp add: handler_static_def handler_static_try_without_unparsable)
next
  fix occ d
  assume "matchOccurrence parse targetTime occs = (Some occ, d)"
  then have "occ \<in> set occs \<and> parsable parse occ"
    using matchLoop_selects_member [of parse targetTime occs None PosInf occ d]
    by (simp add: matchOccurrence_def)
  then show "occ \<in> set occs" and "parsable parse occ" by simp_all
next
  fix occ d
  assume "matchOccurrence_static parse targetTime occs = (Some occ, d)"
  then have "occ \<in> set occs \<and> parsable parse occ"
    using matchLoop_selects_member [of parse targetTime occs None PosInf occ d]
    by (simp add: matchOccurrence_static_def loops_agree)
  then show "occ \<in> set occs" and "parsable parse occ" by simp_all
qed

theorem unparsable_occurrences_skipped_witness:
  "matchOccurrence scenario_parse (Fin 1714557600000)
       [occurrence_bad, occurrence2, occurrence_bad, occurrence1]
     = (Some occurrence1, Fin 60000)
   \<and> matchOccurrence_static scenario_parse (Fin 1714557600000)
       [occurrence_bad, occurrence2, occurrence_bad, occurrence1]
     = (Some occurrence1, Fin 60000)
   \<and> filter (parsable scenario_parse) [occurrence_bad, occurrence2, occurrence_bad, occurrence1]
     = [occurrence2, occurrence1]
   \<and> matchOccurrence scenario_parse (Fin 1714557600000) [occurrence2, occurrence1]
     = (Some occurrence1, Fin 60000)
   \<and> parsable scenario_parse occurrence1"
proof -
  let ?occs = "[occurrence_bad, occurrence2, occurrence_bad, occurrence1]"
  let ?t = "Fin 1714557600000"
  note U = unparsable_occurrences_skipped [of scenario_parse ?t ?occs]
  note same = U [THEN conjunct1]
  note member = U [THEN conjunct2, THEN conjunct2, THEN conjunct1, rule_format]
  have run: "matchOccurrence scenario_parse ?t ?occs = (Some occurrence1, Fin 60000)"
    by (simp del: matchLoop.simps(2) add: matchOccurrence_def matchLoop_step scenario_diffs)
  have run_static:
    "matchOccurrence_static scenario_parse ?t ?occs = (Some occurrence1, Fin 60000)"
    by (simp del: matchLoop_static.simps(2)
          add: matchOccurrence_static_def matchLoop_static_step scenario_diffs)
  have kept: "filter (parsable scenario_parse) ?occs = [occurrence2, occurrence1]"
    by (simp add: scenario_parsable)
  from member [OF run] have "parsable scenario_parse occurrence1"
    by (rule conjunct2)
  moreover from same run
  have "matchOccurrence scenario_parse ?t [occurrence2, occurrence1]
          = (Some occurrence1, Fin 60000)"
    by (simp only: kept)
  ultimately show ?thesis
    using run run_static kept by simp
qed

subsection \<open>C5: the name split\<close>

lemma last_dropWhile_nonempty: "dropWhile P xs \<noteq> [] \<Longrightarrow> last (dropWhile P xs) = last xs"
  by (induction xs) (auto split: if_splits)

lemma spec_tokens_Nil: "spec_tokens [] = []"
  by (simp add: spec_tokens.simps)

lemma spec_tokens_dropWhile: "spec_tokens (dropWhile isWhiteSpace s) = spec_tokens s"
  by (subst (1 2) spec_tokens.simps) simp

lemma spec_tokens_Cons:
  "\<not> isWhiteSpace c \<Longrightarrow>
   spec_tokens (c # cs) = (c # takeWhile (\<lambda>c. \<not> isWhiteSpace c) cs)
                             # spec_tokens (dropWhile (\<lambda>c. \<not> isWhiteSpace c) cs)"
  by (subst spec_tokens.simps) simp

lemma split_ws_tokens:
  "s \<noteq> [] \<Longrightarrow> \<not> isWhiteSpace (hd s) \<Longrightarrow> \<not> isWhiteSpace (last s)
   \<Longrightarrow> split_ws s = spec_tokens s"
proof (induction s rule: length_induct)
  case (1 s)
  let ?nw = "\<lambda>c. \<not> isWhiteSpace c"
  from "1.prems" obtain c cs where s: "s = c # cs" and c: "\<not> isWhiteSpace c"
    by (cases s) auto
  let ?rest = "dropWhile ?nw cs"
  have rest: "dropWhile ?nw s = ?rest" using s c by simp
  have tok: "takeWhile ?nw s = c # takeWhile ?nw cs" using s c by simp
  show ?case
  proof (cases "?rest = []")
    case True
    have "takeWhile ?nw cs @ ?rest = cs"
      by (rule takeWhile_dropWhile_id)
    then have tw: "takeWhile ?nw cs = cs"
      unfolding True by simp
    have "spec_tokens s = (c # takeWhile ?nw cs) # spec_tokens ?rest"
      unfolding s using c by (rule spec_tokens_Cons)
    also have "\<dots> = [s]"
      unfolding True tw spec_tokens_Nil s ..
    also have "[s] = split_ws s"
      by (subst split_ws.simps) (simp only: rest True refl if_True)
    finally show ?thesis ..
  next
    case False
    let ?r = "dropWhile isWhiteSpace ?rest"
    have last_rest: "last ?rest = last s"
      using False s last_dropWhile_nonempty [of ?nw cs] by (cases cs) auto
    have "\<not> isWhiteSpace (last ?rest)"
      using last_rest "1.prems" by simp
    then have r_ne: "?r \<noteq> []"
      using False by (metis dropWhile_eq_Nil_conv last_in_set)
    have hd_r: "\<not> isWhiteSpace (hd ?r)"
      using r_ne hd_dropWhile [of isWhiteSpace ?rest] by simp
    have last_r: "\<not> isWhiteSpace (last ?r)"
      using r_ne last_dropWhile_nonempty [of isWhiteSpace ?rest] last_rest "1.prems" by simp
    have "length ?r \<le> length ?rest" by (rule length_dropWhile_le)
    also have "\<dots> \<le> length cs" by (rule length_dropWhile_le)
    finally have len: "length ?r < length s" using s by simp
    have ih: "split_ws ?r = spec_tokens ?r"
      using "1.IH" len r_ne hd_r last_r by blast
    have "split_ws s = takeWhile ?nw s # split_ws ?r"
      by (subst split_ws.simps) (simp only: rest False if_False)
    also have "\<dots> = (c # takeWhile ?nw cs) # spec_tokens ?rest"
      unfolding tok ih spec_tokens_dropWhile ..
    also have "\<dots> = spec_tokens s"
      unfolding s using c by (rule spec_tokens_Cons [symmetric])
    finally show ?thesis .
  qed
qed

lemma trim_ends:
  assumes "trim s \<noteq> []"
  shows "\<not> isWhiteSpace (hd (trim s))" and "\<not> isWhiteSpace (last (trim s))"
proof -
  let ?d = "dropWhile isWhiteSpace s"
  let ?e = "dropWhile isWhiteSpace (rev ?d)"
  from assms have e: "?e \<noteq> []" by (simp add: trim_def)
  have d: "?d \<noteq> []"
  proof
    assume a: "?d = []"
    have "?e = []" unfolding a by simp
    with e show False by simp
  qed
  have "last (trim s) = hd ?e" using e by (simp add: trim_def last_rev)
  then show "\<not> isWhiteSpace (last (trim s))"
    using e hd_dropWhile [of isWhiteSpace "rev ?d"] by simp
  have "hd (trim s) = last ?e" using e by (simp add: trim_def hd_rev)
  also have "\<dots> = last (rev ?d)" using e by (rule last_dropWhile_nonempty)
  also have "\<dots> = hd ?d" using d by (simp add: last_rev)
  finally show "\<not> isWhiteSpace (hd (trim s))"
    using d hd_dropWhile [of isWhiteSpace s] by simp
qed

lemma nameParts_tokens:
  "nameParts s = (if trim s = [] then [ [] ] else spec_tokens (trim s))"
proof (cases "trim s = []")
  case True
  have "split_ws [] = [ [] ]" by (subst split_ws.simps) simp
  with True show ?thesis by (simp add: nameParts_def)
next
  case False
  then show ?thesis
    using split_ws_tokens [of "trim s"] trim_ends [of s] by (simp add: nameParts_def)
qed

lemma first_name_refines: "first_name s = spec_first_name s"
proof (cases "trim s = []")
  case True
  then show ?thesis
    by (simp add: first_name_def spec_first_name_def nameParts_tokens spec_tokens_Nil or_empty_def)
next
  case False
  then show ?thesis
    by (simp add: first_name_def spec_first_name_def nameParts_tokens or_empty_def split: list.splits)
qed

lemma last_name_refines: "last_name s = spec_last_name s"
  by (simp add: last_name_def spec_last_name_def nameParts_tokens spec_tokens_Nil or_empty_def)

text \<open>
  C5. For every \<open>fullName\<close> string \<open>s\<close>, the name split of both Zoom handlers gives as
  \<open>first_name\<close> the first whitespace-delimited token of the trimmed string and as
  \<open>last_name\<close> the remaining tokens joined with single spaces, the empty string when
  there is at most one token. \<open>"Jane Q Public"\<close> gives \<open>"Jane"\<close> and \<open>"Q Public"\<close>;
  \<open>"Solo"\<close> gives \<open>"Solo"\<close> and the empty last name.
\<close>

theorem name_split:
  "first_name s = spec_first_name s
   \<and> last_name s = spec_last_name s
   \<and> first_name ''Jane Q Public'' = ''Jane''
   \<and> last_name ''Jane Q Public'' = ''Q Public''
   \<and> first_name ''Solo'' = ''Solo''
   \<and> last_name ''Solo'' = []"
proof -
  have "first_name ''Jane Q Public'' = ''Jane''" by code_simp
  moreover have "last_name ''Jane Q Public'' = ''Q Public''" by code_simp
  moreover have "first_name ''Solo'' = ''Solo''" by code_simp
  moreover have "last_name ''Solo'' = []" by code_simp
  ultimately show ?thesis
    using first_name_refines [of s] last_name_refines [of s] by blast
qed

subsection \<open>C6: a meeting without occurrences\<close>

text \<open>
  C6. When the fetched meeting has no occurrence list, or an empty one, no occurrence is
  selected, and the handler goes on to the registration call: its URL is the registrants
  endpoint of the meeting with nothing appended (in the OAuth variant it contains no
  question mark at all), and when that call succeeds the handler answers 200 with the
  empty string as \<open>occurrence_id\<close>. The OAuth variant gets there when the target time
  parses; the static-token variant gets there in any case.
\<close>

theorem no_occurrences:
  assumes "valid_request req b"
    and "occurrences d = None \<or> occurrences d = Some []"
  shows "(configured env \<and> grants fetch (envTokenRequest env) tok
          \<and> answers fetch (meetingRequest (env ''ZOOM_MEETING_ID'') tok) d
          \<and> isFinite (getTime parse (sessionTimeSelected b))
          \<longrightarrow> matchOccurrence parse (getTime parse (sessionTimeSelected b)) (occurrences_of d)
                = (None, PosInf)
            \<and> calls (handler parse env fetch req)
                = [envTokenRequest env, meetingRequest (env ''ZOOM_MEETING_ID'') tok,
                   registrationRequest
                     (''https://api.zoom.us/v2/meetings/''
                        @ encodeURIComponent (toStr (env ''ZOOM_MEETING_ID'')) @ ''/registrants'')
                     tok (regBody b)]
            \<and> CHR ''?'' \<notin> set (''https://api.zoom.us/v2/meetings/''
                        @ encodeURIComponent (toStr (env ''ZOOM_MEETING_ID'')) @ ''/registrants'')
            \<and> (\<forall>d'. answers fetch
                       (registrationRequest
                          (''https://api.zoom.us/v2/meetings/''
                             @ encodeURIComponent (toStr (env ''ZOOM_MEETING_ID''))
                             @ ''/registrants'')
                          tok (regBody b)) d'
                  \<longrightarrow> (\<exists>r. responses (handler parse env fetch req) = [r] \<and> status r = 200
                          \<and> property r ''occurrence_id'' = Some (JStr []))))
       \<and> (configured_static env
          \<and> answers fetch (meetingRequest_static (env ''ZOOM_MEETING_ID'')
                             (toStr (env ''ZOOM_ACCESS_TOKEN''))) d
          \<longrightarrow> matchOccurrence_static parse (getTime parse (sessionTimeSelected b))
                  (occurrences_of d) = (None, PosInf)
            \<and> calls (handler_static parse env fetch req)
                = [meetingRequest_static (env ''ZOOM_MEETING_ID'')
                     (toStr (env ''ZOOM_ACCESS_TOKEN'')),
                   registrationRequest
                     (''https://api.zoom.us/v2/meetings/'' @ toStr (env ''ZOOM_MEETING_ID'')
                        @ ''/registrants'')
                     (toStr (env ''ZOOM_ACCESS_TOKEN'')) (regBody b)]
            \<and> (\<forall>d'. answers fetch
                       (registrationRequest
                          (''https://api.zoom.us/v2/meetings/'' @ toStr (env ''ZOOM_MEETING_ID'')
                             @ ''/registrants'')
                          (toStr (env ''ZOOM_ACCESS_TOKEN'')) (regBody b)) d'
                  \<longrightarrow> (\<exists>r. responses (handler_static parse env fetch req) = [r]
                          \<and> status r = 200
                          \<and> property r ''occurrence_id'' = Some (JStr []))))"
proof (intro conjI impI allI)
  have post: "req_method req = ''POST''"
    using assms(1) by (simp add: valid_request_def)
  have empty: "occurrences_of d = []"
    using assms(2) by (auto simp: occurrences_of_def)
  let ?T = "getTime parse (sessionTimeSelected b)"
  let ?M = "env ''ZOOM_MEETING_ID''"
  show "CHR ''?'' \<notin> set (''https://api.zoom.us/v2/meetings/''
                        @ encodeURIComponent (toStr ?M) @ ''/registrants'')"
    using encodeURIComponent_no_query [of "toStr ?M"] by simp
  {
    assume h: "configured env \<and> grants fetch (envTokenRequest env) tok
          \<and> answers fetch (meetingRequest ?M tok) d \<and> isFinite ?T"
    show "matchOccurrence parse ?T (occurrences_of d) = (None, PosInf)"
      by (simp add: empty)
    have run: "handler_try parse env fetch req
        = and_then ([envTokenRequest env, meetingRequest ?M tok], Inr ())
            (\<lambda>_. register fetch ?M tok b None)"
      using handler_try_matching [OF assms(1), of env fetch tok d parse] h
      by (simp add: empty)
    show "calls (handler parse env fetch req)
                = [envTokenRequest env, meetingRequest ?M tok,
                   registrationRequest
                     (''https://api.zoom.us/v2/meetings/''
                        @ encodeURIComponent (toStr ?M) @ ''/registrants'')
                     tok (regBody b)]"
      by (simp add: handler_calls [OF post] run and_then_fst regUrl_None register_calls)
    fix d'
    assume "answers fetch
                       (registrationRequest
                          (''https://api.zoom.us/v2/meetings/''
                             @ encodeURIComponent (toStr ?M) @ ''/registrants'')
                          tok (regBody b)) d'"
    then obtain r where r: "register fetch ?M tok b None
         = ([registrationRequest (regUrl ?M None) tok (regBody b)], Inr r)"
       "status r = 200" "property r ''occurrence_id'' = Some (JStr [])"
      using register_answered [of fetch ?M tok b d'] by (auto simp: regUrl_None)
    have "handler parse env fetch req
            = map Fetch ([envTokenRequest env, meetingRequest ?M tok]
                         @ [registrationRequest (regUrl ?M None) tok (regBody b)])
              @ [Respond r]"
      by (rule handler_result [OF post]) (simp add: run and_then_pair r(1))
    with r(2,3) show "\<exists>r. responses (handler parse env fetch req) = [r] \<and> status r = 200
                          \<and> property r ''occurrence_id'' = Some (JStr [])"
      by simp
  }
  {
    let ?K = "toStr (env ''ZOOM_ACCESS_TOKEN'')"
    assume h: "configured_static env \<and> answers fetch (meetingRequest_static ?M ?K) d"
    show "matchOccurrence_static parse ?T (occurrences_of d) = (None, PosInf)"
      by (simp add: empty)
    have run: "handler_static_try parse env fetch req
        = and_then ([meetingRequest_static ?M ?K], Inr ())
            (\<lambda>_. register_static fetch ?M ?K b None)"
      using handler_static_try_matching [OF assms(1), of env fetch d parse] h
      by (simp add: empty)
    show "calls (handler_static parse env fetch req)
                = [meetingRequest_static ?M ?K,
                   registrationRequest
                     (''https://api.zoom.us/v2/meetings/'' @ toStr ?M @ ''/registrants'')
                     ?K (regBody b)]"
      by (simp add: handler_static_calls [OF post] run and_then_fst regUrl_None
            register_static_calls)
    fix d'
    assume "answers fetch
                       (registrationRequest
                          (''https://api.zoom.us/v2/meetings/'' @ toStr ?M @ ''/registrants'')
                          ?K (regBody b)) d'"
    then obtain r where r: "register_static fetch ?M ?K b None
         = ([registrationRequest (regUrl_static ?M None) ?K (regBody b)], Inr r)"
       "status r = 200" "property r ''occurrence_id'' = Some (JStr [])"
      using register_static_answered [of fetch ?M ?K b d'] by (auto simp: regUrl_None)
    have "handler_static parse env fetch req
            = map Fetch ([meetingRequest_static ?M ?K]
                         @ [registrationRequest (regUrl_static ?M None) ?K (regBody b)])
              @ [Respond r]"
      by (rule handler_static_result [OF post]) (simp add: run and_then_pair r(1))
    with r(2,3) show "\<exists>r. responses (handler_static parse env fetch req) = [r]
                          \<and> status r = 200
                          \<and> property r ''occurrence_id'' = Some (JStr [])"
      by simp
  }
qed

theorem no_occurrences_witness:
  "valid_request (scenario_request ''2024-05-01T10:00:00Z'')
     \<lparr>fullName = Some ''Ann Lee'', email = Some ''a@x.com'', role = None,
      sessionTimeSelected = Some ''2024-05-01T10:00:00Z''\<rparr>
   \<and> occurrences (no_data\<lparr>occurrences := Some []\<rparr>) = Some []
   \<and> configured scenario_env
   \<and> grants (scenario_fetch (Some [])) (envTokenRequest scenario_env) ''tok''
   \<and> answers (scenario_fetch (Some []))
        (meetingRequest (scenario_env ''ZOOM_MEETING_ID'') ''tok'')
        (no_data\<lparr>occurrences := Some []\<rparr>)
   \<and> isFinite (getTime scenario_parse (Some ''2024-05-01T10:00:00Z''))
   \<and> map url (calls (handler scenario_parse scenario_env (scenario_fetch (Some []))
                        (scenario_request ''2024-05-01T10:00:00Z'')))
       = [''https://zoom.us/oauth/token?grant_type=account_credentials&account_id=acct'',
          ''https://api.zoom.us/v2/meetings/85746065'',
          ''https://api.zoom.us/v2/meetings/85746065/registrants'']
   \<and> (\<exists>r. responses (handler scenario_parse scenario_env (scenario_fetch (Some []))
                        (scenario_request ''2024-05-01T10:00:00Z'')) = [r]
          \<and> status r = 200 \<and> property r ''occurrence_id'' = Some (JStr []))
   \<and> configured_static scenario_env
   \<and> answers (scenario_fetch (Some []))
        (meetingRequest_static (scenario_env ''ZOOM_MEETING_ID'')
           (toStr (scenario_env ''ZOOM_ACCESS_TOKEN'')))
        (no_data\<lparr>occurrences := Some []\<rparr>)
   \<and> map url (calls (handler_static scenario_parse scenario_env (scenario_fetch (Some []))
                        (scenario_request ''2024-05-01T10:00:00Z'')))
       = [''https://api.zoom.us/v2/meetings/85746065'',
          ''https://api.zoom.us/v2/meetings/85746065/registrants'']
   \<and> (\<exists>r. responses (handler_static scenario_parse scenario_env (scenario_fetch (Some []))
                        (scenario_request ''2024-05-01T10:00:00Z'')) = [r]
          \<and> status r = 200 \<and> property r ''occurrence_id'' = Some (JStr []))"
proof -
  let ?t = "''2024-05-01T10:00:00Z''"
  let ?b = "\<lparr>fullName = Some ''Ann Lee'', email = Some ''a@x.com'', role = None,
             sessionTimeSelected = Some ?t\<rparr>"
  let ?d = "no_data\<lparr>occurrences := Some []\<rparr>"
  let ?fetch = "scenario_fetch (Some [])"
  have valid: "valid_request (scenario_request ?t) ?b"
    by (simp add: scenario_valid)
  have none: "occurrences ?d = None \<or> occurrences ?d = Some []"
    by simp
  have target: "isFinite (getTime scenario_parse (sessionTimeSelected ?b))"
    by (simp add: scenario_target)
  have reg: "answers ?fetch
          (registrationRequest
             (''https://api.zoom.us/v2/meetings/''
                @ encodeURIComponent (toStr (scenario_env ''ZOOM_MEETING_ID''))
                @ ''/registrants'') ''tok'' (regBody ?b))
          (no_data\<lparr>join_url := Some ''https://zoom.us/w/1'', registrant_id := Some ''r1''\<rparr>)"
    using scenario_urls(4)
    by (intro scenario_registration) (simp_all add: regUrl_None scenario_env_values)
  have reg_static: "answers ?fetch
          (registrationRequest
             (''https://api.zoom.us/v2/meetings/'' @ toStr (scenario_env ''ZOOM_MEETING_ID'')
                @ ''/registrants'')
             (toStr (scenario_env ''ZOOM_ACCESS_TOKEN'')) (regBody ?b))
          (no_data\<lparr>join_url := Some ''https://zoom.us/w/1'', registrant_id := Some ''r1''\<rparr>)"
    by (intro scenario_registration) (simp_all add: scenario_env_values toStr_def)
  note N = no_occurrences [OF valid none, of scenario_env ?fetch "''tok''" scenario_parse]
  from N scenario_configured scenario_grants [of "Some []"]
    scenario_meeting [of "Some []" "''tok''"] scenario_meeting_static [of "Some []"]
    target reg reg_static
  have oauth: "calls (handler scenario_parse scenario_env ?fetch (scenario_request ?t))
                = [envTokenRequest scenario_env,
                   meetingRequest (scenario_env ''ZOOM_MEETING_ID'') ''tok'',
                   registrationRequest
                     (''https://api.zoom.us/v2/meetings/''
                        @ encodeURIComponent (toStr (scenario_env ''ZOOM_MEETING_ID''))
                        @ ''/registrants'')
                     ''tok'' (regBody ?b)]"
    and oauth_r: "\<exists>r. responses (handler scenario_parse scenario_env ?fetch
                        (scenario_request ?t)) = [r]
          \<and> status r = 200 \<and> property r ''occurrence_id'' = Some (JStr [])"
    and static: "calls (handler_static scenario_parse scenario_env ?fetch (scenario_request ?t))
                = [meetingRequest_static (scenario_env ''ZOOM_MEETING_ID'')
                     (toStr (scenario_env ''ZOOM_ACCESS_TOKEN'')),
                   registrationRequest
                     (''https://api.zoom.us/v2/meetings/''
                        @ toStr (scenario_env ''ZOOM_MEETING_ID'') @ ''/registrants'')
                     (toStr (scenario_env ''ZOOM_ACCESS_TOKEN'')) (regBody ?b)]"
    and static_r: "\<exists>r. responses (handler_static scenario_parse scenario_env ?fetch
                        (scenario_request ?t)) = [r]
          \<and> status r = 200 \<and> property r ''occurrence_id'' = Some (JStr [])"
    by blast+
  have urls: "map url (calls (handler scenario_parse scenario_env ?fetch (scenario_request ?t)))
       = [''https://zoom.us/oauth/token?grant_type=account_credentials&account_id=acct'',
          ''https://api.zoom.us/v2/meetings/85746065'',
          ''https://api.zoom.us/v2/meetings/85746065/registrants'']"
    using scenario_urls(4)
    by (simp add: oauth scenario_urls scenario_env_values registrationRequest_def regUrl_None)
  have urls_static:
    "map url (calls (handler_static scenario_parse scenario_env ?fetch (scenario_request ?t)))
       = [''https://api.zoom.us/v2/meetings/85746065'',
          ''https://api.zoom.us/v2/meetings/85746065/registrants'']"
    by (simp add: static scenario_urls scenario_env_values registrationRequest_def toStr_def)
  from valid scenario_configured scenario_grants [of "Some []"]
    scenario_meeting [of "Some []" "''tok''"] scenario_meeting_static [of "Some []"]
    target urls urls_static oauth_r static_r
  show ?thesis by simp
qed

subsection \<open>C7: the Zoho relay\<close>

text \<open>
  C7. For every POST request to the Zoho relay: when \<open>ZOHO_URL\<close> is not set it answers
  500 with the error "ZOHO_URL is not set" and makes no upstream call. Otherwise it makes
  exactly one call: to the configured URL, with the method POST, the header
  \<open>Content-Type: application/json\<close> and the request body as it came in, serialised
  (no body at all when the request has none). It answers with the upstream's status and
  text, or with the text "ok" when the upstream's text is empty or cannot be read. When the
  call itself throws it answers 500 with the thrown message, or with "Zoho proxy error"
  when that message is empty.
\<close>

theorem zoho_relay:
  assumes "req_method req = ''POST''"
  shows "(\<not> truthy (env ''ZOHO_URL'') \<longrightarrow>
            handler_zoho env fetch req
              = [Respond \<lparr>status = 500, resp_headers = [],
                           body = Json (JObj [(''error'', JStr ''ZOHO_URL is not set'')])\<rparr>])
       \<and> (\<forall>u q. env ''ZOHO_URL'' = Some u \<and> u \<noteq> []
                 \<and> q = \<lparr>url = u, http_method = ''POST'',
                          headers = [(''Content-Type'', ''application/json'')],
                          payload = req_body req\<rparr> \<longrightarrow>
            calls (handler_zoho env fetch req) = [q]
            \<and> (\<forall>r t. fetch q = Resolved r \<and> res_text r = Inr t
                  \<longrightarrow> responses (handler_zoho env fetch req)
                        = [\<lparr>status = res_status r, resp_headers = [],
                            body = Send (if t = [] then ''ok'' else t)\<rparr>])
            \<and> (\<forall>r e. fetch q = Resolved r \<and> res_text r = Inl e
                  \<longrightarrow> responses (handler_zoho env fetch req)
                        = [\<lparr>status = res_status r, resp_headers = [], body = Send ''ok''\<rparr>])
            \<and> (\<forall>m. fetch q = Rejected (Error m)
                  \<longrightarrow> responses (handler_zoho env fetch req)
                        = [\<lparr>status = 500, resp_headers = [],
                            body = Json (JObj [(''error'',
                              JStr (if m = [] then ''Zoho proxy error'' else m))])\<rparr>]))"
  using assms
  by (auto simp: handler_zoho_def zohoRequest_def json_reply_def truthy_def toStr_def
        or_default_def Let_def split: fetch_result.splits)

theorem zoho_relay_witness:
  "handler_zoho (\<lambda>name. None) (\<lambda>q. Rejected (Error ''unreachable''))
       \<lparr>req_method = ''POST'', req_body = Some (JObj [(''Last_Name'', JStr ''Lee'')])\<rparr>
     = [Respond \<lparr>status = 500, resp_headers = [],
                  body = Json (JObj [(''error'', JStr ''ZOHO_URL is not set'')])\<rparr>]
   \<and> calls (handler_zoho scenario_env
        (\<lambda>q. Resolved \<lparr>res_status = 202, res_text = Inr ''queued'',
                         res_json = Inl (Error ''Unexpected token'')\<rparr>)
        \<lparr>req_method = ''POST'', req_body = Some (JObj [(''Last_Name'', JStr ''Lee'')])\<rparr>)
     = [\<lparr>url = ''https://flow.zoho.com/hook'', http_method = ''POST'',
         headers = [(''Content-Type'', ''application/json'')],
         payload = Some (JObj [(''Last_Name'', JStr ''Lee'')])\<rparr>]
   \<and> calls (handler_zoho scenario_env
        (\<lambda>q. Resolved \<lparr>res_status = 202, res_text = Inr ''queued'',
                         res_json = Inl (Error ''Unexpected token'')\<rparr>)
        \<lparr>req_method = ''POST'', req_body = (None :: jsval option)\<rparr>)
     = [\<lparr>url = ''https://flow.zoho.com/hook'', http_method = ''POST'',
         headers = [(''Content-Type'', ''application/json'')],
         payload = None\<rparr>]
   \<and> responses (handler_zoho scenario_env
        (\<lambda>q. Resolved \<lparr>res_status = 202, res_text = Inr ''queued'',
                         res_json = Inl (Error ''Unexpected token'')\<rparr>)
        \<lparr>req_method = ''POST'', req_body = Some (JObj [(''Last_Name'', JStr ''Lee'')])\<rparr>)
     = [\<lparr>status = 202, resp_headers = [], body = Send ''queued''\<rparr>]
   \<and> responses (handler_zoho scenario_env
        (\<lambda>q. Resolved \<lparr>res_status = 204, res_text = Inr [],
                         res_json = Inl (Error ''Unexpected end of JSON input'')\<rparr>)
        \<lparr>req_method = ''POST'', req_body = Some (JObj [(''Last_Name'', JStr ''Lee'')])\<rparr>)
     = [\<lparr>status = 204, resp_headers = [], body = Send ''ok''\<rparr>]
   \<and> responses (handler_zoho scenario_env
        (\<lambda>q. Resolved \<lparr>res_status = 502, res_text = Inl (Error ''terminated''),
                         res_json = Inl (Error ''terminated'')\<rparr>)
        \<lparr>req_method = ''POST'', req_body = Some (JObj [(''Last_Name'', JStr ''Lee'')])\<rparr>)
     = [\<lparr>status = 502, resp_headers = [], body = Send ''ok''\<rparr>]
   \<and> responses (handler_zoho scenario_env (\<lambda>q. Rejected (Error ''fetch failed''))
        \<lparr>req_method = ''POST'', req_body = Some (JObj [(''Last_Name'', JStr ''Lee'')])\<rparr>)
     = [\<lparr>status = 500, resp_headers = [],
         body = Json (JObj [(''error'', JStr ''fetch failed'')])\<rparr>]"
proof -
  let ?req = "\<lparr>req_method = ''POST'',
                req_body = Some (JObj [(''Last_Name'', JStr ''Lee'')])\<rparr>"
  let ?bare = "\<lparr>req_method = ''POST'', req_body = (None :: jsval option)\<rparr>"
  have post: "req_method ?req = ''POST''" by simp
  have post': "req_method ?bare = ''POST''" by simp
  have unset: "\<not> truthy ((\<lambda>name. None) ''ZOHO_URL'')" by (simp add: truthy_def)
  have set: "scenario_env ''ZOHO_URL'' = Some ''https://flow.zoho.com/hook''
               \<and> ''https://flow.zoho.com/hook'' \<noteq> []"
    by (simp add: scenario_env_def)
  show ?thesis
    using zoho_relay [OF post, of "\<lambda>name. None" "\<lambda>q. Rejected (Error ''unreachable'')"] unset
      zoho_relay [OF post, of scenario_env
        "\<lambda>q. Resolved \<lparr>res_status = 202, res_text = Inr ''queued'',
                         res_json = Inl (Error ''Unexpected token'')\<rparr>"]
      zoho_relay [OF post', of scenario_env
        "\<lambda>q. Resolved \<lparr>res_status = 202, res_text = Inr ''queued'',
                         res_json = Inl (Error ''Unexpected token'')\<rparr>"]
      zoho_relay [OF post, of scenario_env
        "\<lambda>q. Resolved \<lparr>res_status = 204, res_text = Inr [],
                         res_json = Inl (Error ''Unexpected end of JSON input'')\<rparr>"]
      zoho_relay [OF post, of scenario_env
        "\<lambda>q. Resolved \<lparr>res_status = 502, res_text = Inl (Error ''terminated''),
                         res_json = Inl (Error ''terminated'')\<rparr>"]
      zoho_relay [OF post, of scenario_env "\<lambda>q. Rejected (Error ''fetch failed'')"]
      set
    by simp
qed

subsection \<open>C8: token acquisition\<close>

text \<open>
  C8. \<open>getZoomAccessToken\<close> makes exactly one call, to the token endpoint, and never a
  second one. It returns the token \<open>tok\<close> exactly when the endpoint answers with a
  success status and a payload whose \<open>access_token\<close> is the non-empty string \<open>tok\<close>.
  It throws when the status is not a success, and it throws "missing access_token" when
  the payload of a success has no (or an empty) \<open>access_token\<close>. Whatever it throws,
  the handler answers 500 with \<open>success: false\<close> and the error's message, after that
  one call.
\<close>

theorem token_acquisition:
  "fst (getZoomAccessToken fetch a c s) = [tokenRequest a c s]
   \<and> (snd (getZoomAccessToken fetch a c s) = Inr tok) = grants fetch (tokenRequest a c s) tok
   \<and> (\<forall>r. fetch (tokenRequest a c s) = Resolved r \<and> \<not> ok r
          \<longrightarrow> (\<exists>e. snd (getZoomAccessToken fetch a c s) = Inl e))
   \<and> (\<forall>d. answers fetch (tokenRequest a c s) d \<and> \<not> truthy (access_token d)
          \<longrightarrow> snd (getZoomAccessToken fetch a c s)
                = Inl (Error ''Zoom token response missing access_token''))
   \<and> (\<forall>e. valid_request req b \<and> configured env
            \<and> snd (getZoomAccessToken fetch (env ''ZOOM_ACCOUNT_ID'') (env ''ZOOM_CLIENT_ID'')
                      (env ''ZOOM_CLIENT_SECRET'')) = Inl e
          \<longrightarrow> handler parse env fetch req
                = [Fetch (envTokenRequest env),
                   Respond (json_reply 500
                     (failure (or_default (message e) ''Internal server error'')))])"
proof (intro conjI allI impI)
  show "fst (getZoomAccessToken fetch a c s) = [tokenRequest a c s]"
    by (rule token_calls)
  show "(snd (getZoomAccessToken fetch a c s) = Inr tok) = grants fetch (tokenRequest a c s) tok"
    by (rule token_iff_grants)
next
  fix r assume "fetch (tokenRequest a c s) = Resolved r \<and> \<not> ok r"
  then show "\<exists>e. snd (getZoomAccessToken fetch a c s) = Inl e"
    by (auto simp: token_result split: sum.splits)
next
  fix d assume "answers fetch (tokenRequest a c s) d \<and> \<not> truthy (access_token d)"
  then show "snd (getZoomAccessToken fetch a c s)
                = Inl (Error ''Zoom token response missing access_token'')"
    by (auto simp: token_result answers_def)
next
  fix e
  assume h: "valid_request req b \<and> configured env
            \<and> snd (getZoomAccessToken fetch (env ''ZOOM_ACCOUNT_ID'') (env ''ZOOM_CLIENT_ID'')
                      (env ''ZOOM_CLIENT_SECRET'')) = Inl e"
  then have "handler_try parse env fetch req = ([envTokenRequest env], Inl e)"
    using handler_try_token_failure by blast
  moreover have "req_method req = ''POST''"
    using h by (simp add: valid_request_def)
  ultimately show "handler parse env fetch req
                = [Fetch (envTokenRequest env),
                   Respond (json_reply 500
                     (failure (or_default (message e) ''Internal server error'')))]"
    by (simp add: handler_def)
qed

theorem token_acquisition_witness:
  "\<not> ok \<lparr>res_status = 401, res_text = Inr ''Unauthorized'',
              res_json = Inl (Error ''Unexpected token'')\<rparr>
   \<and> snd (getZoomAccessToken
        (\<lambda>q. Resolved \<lparr>res_status = 401, res_text = Inr ''Unauthorized'',
                         res_json = Inl (Error ''Unexpected token'')\<rparr>)
        (Some ''acct'') (Some ''id'') (Some ''secret'') :: (jsval, string) step)
     = Inl (Error ''Zoom token error: 401 Unauthorized'')
   \<and> handler scenario_parse scenario_env
        (\<lambda>q. Resolved \<lparr>res_status = 401, res_text = Inr ''Unauthorized'',
                         res_json = Inl (Error ''Unexpected token'')\<rparr>)
        (scenario_request ''2024-05-01T10:00:00Z'')
     = [Fetch (envTokenRequest scenario_env),
        Respond (json_reply 500 (failure ''Zoom token error: 401 Unauthorized''))]
   \<and> answers (\<lambda>q. Resolved \<lparr>res_status = 200, res_text = Inr ''{}'', res_json = Inr no_data\<rparr>)
        (tokenRequest (Some ''acct'') (Some ''id'') (Some ''secret'') :: jsval http_request)
        no_data
   \<and> \<not> truthy (access_token no_data)
   \<and> snd (getZoomAccessToken
        (\<lambda>q. Resolved \<lparr>res_status = 200, res_text = Inr ''{}'', res_json = Inr no_data\<rparr>)
        (Some ''acct'') (Some ''id'') (Some ''secret'') :: (jsval, string) step)
     = Inl (Error ''Zoom token response missing access_token'')"
proof -
  let ?r = "\<lparr>res_status = 401, res_text = Inr ''Unauthorized'',
             res_json = Inl (Error ''Unexpected token'')\<rparr>"
  let ?denied = "\<lambda>q :: jsval http_request. Resolved ?r"
  let ?empty = "\<lambda>q :: jsval http_request.
      Resolved \<lparr>res_status = 200, res_text = Inr ''{}'', res_json = Inr no_data\<rparr>"
  let ?b = "\<lparr>fullName = Some ''Ann Lee'', email = Some ''a@x.com'', role = None,
             sessionTimeSelected = Some ''2024-05-01T10:00:00Z''\<rparr>"
  let ?req = "scenario_request ''2024-05-01T10:00:00Z''"
  note T = token_acquisition [of ?denied "Some ''acct''" "Some ''id''" "Some ''secret''" _ ?req
      ?b scenario_env scenario_parse]
  note U = token_acquisition [of ?empty "Some ''acct''" "Some ''id''" "Some ''secret''"]
  have not_ok: "\<not> ok ?r" by (simp add: ok_def)
  have env: "scenario_env ''ZOOM_ACCOUNT_ID'' = Some ''acct''"
    "scenario_env ''ZOOM_CLIENT_ID'' = Some ''id''"
    "scenario_env ''ZOOM_CLIENT_SECRET'' = Some ''secret''"
    by (simp_all add: scenario_env_def)
  have thrown: "snd (getZoomAccessToken ?denied (Some ''acct'') (Some ''id'') (Some ''secret'')
                  :: (jsval, string) step)
      = Inl (Error ''Zoom token error: 401 Unauthorized'')"
    by code_simp
  have valid: "valid_request ?req ?b" by (simp add: scenario_valid)
  from T valid scenario_configured(1) thrown
  have run: "handler scenario_parse scenario_env ?denied ?req
     = [Fetch (envTokenRequest scenario_env),
        Respond (json_reply 500 (failure ''Zoom token error: 401 Unauthorized''))]"
    by (simp add: env or_default_def)
  have ans: "answers ?empty
        (tokenRequest (Some ''acct'') (Some ''id'') (Some ''secret'') :: jsval http_request)
        no_data"
    by (simp add: answers_def ok_def)
  have falsy: "\<not> truthy (access_token no_data)"
    by (simp add: no_data_def truthy_def)
  from U ans falsy
  have missing: "snd (getZoomAccessToken ?empty (Some ''acct'') (Some ''id'') (Some ''secret'')
                    :: (jsval, string) step)
     = Inl (Error ''Zoom token response missing access_token'')"
    by blast
  from not_ok thrown run ans falsy missing show ?thesis by simp
qed

subsection \<open>C9: the properties of the success response\<close>

text \<open>
  C9 (amended). Whenever a Zoom handler answers with status 200, the body it sends has
  \<open>success\<close> (true), \<open>join_url\<close>, \<open>registrant_id\<close> and \<open>occurrence_id\<close>, in this
  order, and no \<open>error\<close>; \<open>occurrence_id\<close> is left out of the body when the selected
  occurrence has none. The static-token variant sends no other property; the OAuth variant
  adds \<open>matched_start_time\<close> at the end. When every upstream call succeeds the values are:
  \<open>join_url\<close> is the registration's \<open>join_url\<close>, or the empty string; \<open>registrant_id\<close> is
  the registration's \<open>registrant_id\<close>, else its \<open>id\<close>, else the empty string;
  \<open>occurrence_id\<close> is the selected occurrence's \<open>occurrence_id\<close>, or the empty string when
  no occurrence was selected; \<open>matched_start_time\<close> is the selected occurrence's
  \<open>start_time\<close>, which that occurrence always has, or the empty string when no occurrence
  was selected.
\<close>

theorem success_response_fields:
  "(\<forall>r \<in> set (responses (handler parse env fetch req)).
       status r = 200 \<longrightarrow>
         property r ''success'' = Some (JBool True) \<and> property r ''error'' = None
         \<and> (property_names r
               = [''success'', ''join_url'', ''registrant_id'', ''occurrence_id'',
                  ''matched_start_time'']
              \<or> property_names r
               = [''success'', ''join_url'', ''registrant_id'', ''matched_start_time'']))
   \<and> (\<forall>r \<in> set (responses (handler_static parse env fetch req)).
       status r = 200 \<longrightarrow>
         property r ''success'' = Some (JBool True) \<and> property r ''error'' = None
         \<and> (property_names r = [''success'', ''join_url'', ''registrant_id'', ''occurrence_id'']
              \<or> property_names r = [''success'', ''join_url'', ''registrant_id'']))
   \<and> (valid_request req b \<and> configured env \<and> grants fetch (envTokenRequest env) tok
        \<and> answers fetch (meetingRequest (env ''ZOOM_MEETING_ID'') tok) d
        \<and> isFinite (getTime parse (sessionTimeSelected b))
        \<and> matchOccurrence parse (getTime parse (sessionTimeSelected b)) (occurrences_of d)
            = (best, bestDiff)
        \<and> \<not> (best \<noteq> None \<and> js_gt bestDiff MAX_DIFF_MS)
        \<and> answers fetch
             (registrationRequest (regUrl (env ''ZOOM_MEETING_ID'') best) tok (regBody b))
             regData
       \<longrightarrow> (\<exists>r. responses (handler parse env fetch req) = [r] \<and> status r = 200
              \<and> sent_properties r
                 = [(''success'', JBool True),
                    (''join_url'',
                       JStr (case join_url regData of None \<Rightarrow> [] | Some s \<Rightarrow> s)),
                    (''registrant_id'',
                       JStr (if truthy (registrant_id regData)
                             then toStr (registrant_id regData)
                             else case data_id regData of None \<Rightarrow> [] | Some s \<Rightarrow> s))]
                   @ (case best of
                        None \<Rightarrow> [(''occurrence_id'', JStr [])]
                      | Some occ \<Rightarrow>
                          (case occurrence_id occ of
                             None \<Rightarrow> []
                           | Some i \<Rightarrow> [(''occurrence_id'', JStr i)]))
                   @ (case best of
                        None \<Rightarrow> [(''matched_start_time'', JStr [])]
                      | Some occ \<Rightarrow>
                          (case start_time occ of
                             None \<Rightarrow> []
                           | Some s \<Rightarrow> [(''matched_start_time'', JStr s)]))
              \<and> (\<forall>occ. best = Some occ \<longrightarrow> (\<exists>s. start_time occ = Some s))))
   \<and> (valid_request req b \<and> configured_static env
        \<and> answers fetch (meetingRequest_static (env ''ZOOM_MEETING_ID'')
                           (toStr (env ''ZOOM_ACCESS_TOKEN''))) d
        \<and> matchOccurrence_static parse (getTime parse (sessionTimeSelected b))
              (occurrences_of d) = (best, bestDiff)
        \<and> answers fetch
             (registrationRequest (regUrl_static (env ''ZOOM_MEETING_ID'') best)
                (toStr (env ''ZOOM_ACCESS_TOKEN'')) (regBody b))
             regData
       \<longrightarrow> (\<exists>r. responses (handler_static parse env fetch req) = [r] \<and> status r = 200
              \<and> sent_properties r
                 = [(''success'', JBool True),
                    (''join_url'',
                       JStr (case join_url regData of None \<Rightarrow> [] | Some s \<Rightarrow> s)),
                    (''registrant_id'',
                       JStr (if truthy (registrant_id regData)
                             then toStr (registrant_id regData)
                             else case data_id regData of None \<Rightarrow> [] | Some s \<Rightarrow> s))]
                   @ (case best of
                        None \<Rightarrow> [(''occurrence_id'', JStr [])]
                      | Some occ \<Rightarrow>
                          (case occurrence_id occ of
                             None \<Rightarrow> []
                           | Some i \<Rightarrow> [(''occurrence_id'', JStr i)]))))"
proof (intro conjI ballI impI)
  fix r
  assume r: "r \<in> set (responses (handler parse env fetch req))" and ok: "status r = 200"
  from handler_responses [of parse env fetch req] r
  have "r = json_reply 405 (failure ''Method not allowed'')
          \<or> (\<exists>cs. handler_try parse env fetch req = (cs, Inr r))
          \<or> (\<exists>msg. r = json_reply 500 (failure msg))"
    by auto
  with ok obtain cs where "handler_try parse env fetch req = (cs, Inr r)"
    by auto
  from success_names [OF this ok]
  show "property r ''success'' = Some (JBool True)" and "property r ''error'' = None"
    and "property_names r
               = [''success'', ''join_url'', ''registrant_id'', ''occurrence_id'',
                  ''matched_start_time'']
              \<or> property_names r
               = [''success'', ''join_url'', ''registrant_id'', ''matched_start_time'']"
    by simp_all
next
  fix r
  assume r: "r \<in> set (responses (handler_static parse env fetch req))"
    and ok: "status r = 200"
  from handler_static_responses [of parse env fetch req] r
  have "r = json_reply 405 (failure ''Method not allowed'')
          \<or> (\<exists>cs. handler_static_try parse env fetch req = (cs, Inr r))
          \<or> (\<exists>msg. r = json_reply 500 (failure msg))"
    by auto
  with ok obtain cs where "handler_static_try parse env fetch req = (cs, Inr r)"
    by auto
  from success_names_static [OF this ok]
  show "property r ''success'' = Some (JBool True)" and "property r ''error'' = None"
    and "property_names r = [''success'', ''join_url'', ''registrant_id'', ''occurrence_id'']
              \<or> property_names r = [''success'', ''join_url'', ''registrant_id'']"
    by simp_all
next
  let ?T = "getTime parse (sessionTimeSelected b)"
  let ?M = "env ''ZOOM_MEETING_ID''"
  assume h: "valid_request req b \<and> configured env \<and> grants fetch (envTokenRequest env) tok
        \<and> answers fetch (meetingRequest ?M tok) d
        \<and> isFinite ?T
        \<and> matchOccurrence parse ?T (occurrences_of d) = (best, bestDiff)
        \<and> \<not> (best \<noteq> None \<and> js_gt bestDiff MAX_DIFF_MS)
        \<and> answers fetch (registrationRequest (regUrl ?M best) tok (regBody b)) regData"
  then have post: "req_method req = ''POST''"
    by (simp add: valid_request_def)
  have "handler_try parse env fetch req
          = and_then ([envTokenRequest env, meetingRequest ?M tok], Inr ())
              (\<lambda>_. register fetch ?M tok b best)"
    using handler_try_matching [of req b env fetch tok d parse] h by auto
  also have "\<dots> = ([envTokenRequest env, meetingRequest ?M tok,
                      registrationRequest (regUrl ?M best) tok (regBody b)],
        Inr (json_reply 200
          [(''success'', JBool True),
           (''join_url'', JStr (case join_url regData of None \<Rightarrow> [] | Some s \<Rightarrow> s)),
           (''registrant_id'',
              JStr (if truthy (registrant_id regData) then toStr (registrant_id regData)
                    else case data_id regData of None \<Rightarrow> [] | Some s \<Rightarrow> s)),
           (''occurrence_id'',
              case best of None \<Rightarrow> JStr [] | Some occ \<Rightarrow> toJs (occurrence_id occ)),
           (''matched_start_time'',
              case best of None \<Rightarrow> JStr [] | Some occ \<Rightarrow> toJs (start_time occ))]))"
    using h by (simp only: and_then_pair register_reply [of fetch ?M best tok b regData]) simp
  finally have run: "handler parse env fetch req
      = map Fetch [envTokenRequest env, meetingRequest ?M tok,
                   registrationRequest (regUrl ?M best) tok (regBody b)]
        @ [Respond (json_reply 200
          [(''success'', JBool True),
           (''join_url'', JStr (case join_url regData of None \<Rightarrow> [] | Some s \<Rightarrow> s)),
           (''registrant_id'',
              JStr (if truthy (registrant_id regData) then toStr (registrant_id regData)
                    else case data_id regData of None \<Rightarrow> [] | Some s \<Rightarrow> s)),
           (''occurrence_id'',
              case best of None \<Rightarrow> JStr [] | Some occ \<Rightarrow> toJs (occurrence_id occ)),
           (''matched_start_time'',
              case best of None \<Rightarrow> JStr [] | Some occ \<Rightarrow> toJs (start_time occ))])]"
    by (rule handler_result [OF post])
  have start: "\<forall>occ. best = Some occ \<longrightarrow> (\<exists>s. start_time occ = Some s)"
    using h selected_start_time by blast
  show "\<exists>r. responses (handler parse env fetch req) = [r] \<and> status r = 200
              \<and> sent_properties r
                 = [(''success'', JBool True),
                    (''join_url'',
                       JStr (case join_url regData of None \<Rightarrow> [] | Some s \<Rightarrow> s)),
                    (''registrant_id'',
                       JStr (if truthy (registrant_id regData)
                             then toStr (registrant_id regData)
                             else case data_id regData of None \<Rightarrow> [] | Some s \<Rightarrow> s))]
                   @ (case best of
                        None \<Rightarrow> [(''occurrence_id'', JStr [])]
                      | Some occ \<Rightarrow>
                          (case occurrence_id occ of
                             None \<Rightarrow> []
                           | Some i \<Rightarrow> [(''occurrence_id'', JStr i)]))
                   @ (case best of
                        None \<Rightarrow> [(''matched_start_time'', JStr [])]
                      | Some occ \<Rightarrow>
                          (case start_time occ of
                             None \<Rightarrow> []
                           | Some s \<Rightarrow> [(''matched_start_time'', JStr s)]))
              \<and> (\<forall>occ. best = Some occ \<longrightarrow> (\<exists>s. start_time occ = Some s))"
    unfolding run using start
    by (simp only: responses_map_Fetch responses.simps failure_reply(1) sent_success_reply)
       (auto simp: toJs_def split: option.splits)
next
  let ?T = "getTime parse (sessionTimeSelected b)"
  let ?M = "env ''ZOOM_MEETING_ID''"
  let ?K = "toStr (env ''ZOOM_ACCESS_TOKEN'')"
  assume h: "valid_request req b \<and> configured_static env
        \<and> answers fetch (meetingRequest_static ?M ?K) d
        \<and> matchOccurrence_static parse ?T (occurrences_of d) = (best, bestDiff)
        \<and> answers fetch (registrationRequest (regUrl_static ?M best) ?K (regBody b)) regData"
  then have post: "req_method req = ''POST''"
    by (simp add: valid_request_def)
  have "handler_static_try parse env fetch req
          = and_then ([meetingRequest_static ?M ?K], Inr ())
              (\<lambda>_. register_static fetch ?M ?K b best)"
    using handler_static_try_matching [of req b env fetch d parse] h by auto
  also have "\<dots> = ([meetingRequest_static ?M ?K,
                      registrationRequest (regUrl_static ?M best) ?K (regBody b)],
        Inr (json_reply 200
          [(''success'', JBool True),
           (''join_url'', JStr (case join_url regData of None \<Rightarrow> [] | Some s \<Rightarrow> s)),
           (''registrant_id'',
              JStr (if truthy (registrant_id regData) then toStr (registrant_id regData)
                    else case data_id regData of None \<Rightarrow> [] | Some s \<Rightarrow> s)),
           (''occurrence_id'',
              case best of None \<Rightarrow> JStr [] | Some occ \<Rightarrow> toJs (occurrence_id occ))]))"
    using h by (simp only: and_then_pair register_static_reply [of fetch ?M best ?K b regData]) simp
  finally have run: "handler_static parse env fetch req
      = map Fetch [meetingRequest_static ?M ?K,
                   registrationRequest (regUrl_static ?M best) ?K (regBody b)]
        @ [Respond (json_reply 200
          [(''success'', JBool True),
           (''join_url'', JStr (case join_url regData of None \<Rightarrow> [] | Some s \<Rightarrow> s)),
           (''registrant_id'',
              JStr (if truthy (registrant_id regData) then toStr (registrant_id regData)
                    else case data_id regData of None \<Rightarrow> [] | Some s \<Rightarrow> s)),
           (''occurrence_id'',
              case best of None \<Rightarrow> JStr [] | Some occ \<Rightarrow> toJs (occurrence_id occ))])]"
    by (rule handler_static_result [OF post])
  show "\<exists>r. responses (handler_static parse env fetch req) = [r] \<and> status r = 200
              \<and> sent_properties r
                 = [(''success'', JBool True),
                    (''join_url'',
                       JStr (case join_url regData of None \<Rightarrow> [] | Some s \<Rightarrow> s)),
                    (''registrant_id'',
                       JStr (if truthy (registrant_id regData)
                             then toStr (registrant_id regData)
                             else case data_id regData of None \<Rightarrow> [] | Some s \<Rightarrow> s))]
                   @ (case best of
                        None \<Rightarrow> [(''occurrence_id'', JStr [])]
                      | Some occ \<Rightarrow>
                          (case occurrence_id occ of
                             None \<Rightarrow> []
                           | Some i \<Rightarrow> [(''occurrence_id'', JStr i)]))"
    unfolding run
    by (simp only: responses_map_Fetch responses.simps failure_reply(1)
          sent_success_reply_static) (auto simp: toJs_def split: option.splits)
qed

theorem success_response_fields_witness:
  "valid_request (scenario_request ''2024-05-01T10:00:00Z'')
     \<lparr>fullName = Some ''Ann Lee'', email = Some ''a@x.com'', role = None,
      sessionTimeSelected = Some ''2024-05-01T10:00:00Z''\<rparr>
   \<and> configured scenario_env \<and> configured_static scenario_env
   \<and> isFinite (getTime scenario_parse (Some ''2024-05-01T10:00:00Z''))
   \<and> matchOccurrence scenario_parse (getTime scenario_parse (Some ''2024-05-01T10:00:00Z''))
        [occurrence1, occurrence2] = (Some occurrence1, Fin 60000)
   \<and> \<not> js_gt (Fin 60000) MAX_DIFF_MS
   \<and> map status (responses (handler scenario_parse scenario_env
        (scenario_fetch (Some [occurrence1, occurrence2]))
        (scenario_request ''2024-05-01T10:00:00Z''))) = [200]
   \<and> map sent_properties (responses (handler scenario_parse scenario_env
        (scenario_fetch (Some [occurrence1, occurrence2]))
        (scenario_request ''2024-05-01T10:00:00Z'')))
      = [ [(''success'', JBool True),
           (''join_url'', JStr ''https://zoom.us/w/1''),
           (''registrant_id'', JStr ''r1''),
           (''occurrence_id'', JStr ''1''),
           (''matched_start_time'', JStr ''2024-05-01T09:59:00Z'')] ]
   \<and> map property_names (responses (handler scenario_parse scenario_env
        (scenario_fetch (Some [occurrence1, occurrence2]))
        (scenario_request ''2024-05-01T10:00:00Z'')))
      = [ [''success'', ''join_url'', ''registrant_id'', ''occurrence_id'',
           ''matched_start_time''] ]
   \<and> matchOccurrence scenario_parse (getTime scenario_parse (Some ''2024-05-01T10:00:00Z''))
        [] = (None, PosInf)
   \<and> map sent_properties (responses (handler scenario_parse scenario_env
        (scenario_fetch None) (scenario_request ''2024-05-01T10:00:00Z'')))
      = [ [(''success'', JBool True),
           (''join_url'', JStr ''https://zoom.us/w/1''),
           (''registrant_id'', JStr ''r1''),
           (''occurrence_id'', JStr []),
           (''matched_start_time'', JStr [])] ]
   \<and> matchOccurrence_static scenario_parse
        (getTime scenario_parse (Some ''2024-05-01T10:00:00Z''))
        [occurrence_without_id] = (Some occurrence_without_id, Fin 60000)
   \<and> map status (responses (handler_static scenario_parse scenario_env
        (scenario_fetch (Some [occurrence_without_id]))
        (scenario_request ''2024-05-01T10:00:00Z''))) = [200]
   \<and> map sent_properties (responses (handler_static scenario_parse scenario_env
        (scenario_fetch (Some [occurrence_without_id]))
        (scenario_request ''2024-05-01T10:00:00Z'')))
      = [ [(''success'', JBool True),
           (''join_url'', JStr ''https://zoom.us/w/1''),
           (''registrant_id'', JStr ''r1'')] ]
   \<and> map property_names (responses (handler_static scenario_parse scenario_env
        (scenario_fetch (Some [occurrence_without_id]))
        (scenario_request ''2024-05-01T10:00:00Z'')))
      = [ [''success'', ''join_url'', ''registrant_id''] ]"
proof -
  let ?t = "''2024-05-01T10:00:00Z''"
  let ?b = "\<lparr>fullName = Some ''Ann Lee'', email = Some ''a@x.com'', role = None,
             sessionTimeSelected = Some ?t\<rparr>"
  let ?req = "scenario_request ?t"
  let ?regData = "no_data\<lparr>join_url := Some ''https://zoom.us/w/1'',
                           registrant_id := Some ''r1''\<rparr>"
  let ?M = "scenario_env ''ZOOM_MEETING_ID''"
  let ?K = "toStr (scenario_env ''ZOOM_ACCESS_TOKEN'')"
  have valid: "valid_request ?req ?b"
    by (simp add: scenario_valid)
  have target: "getTime scenario_parse (sessionTimeSelected ?b) = Fin 1714557600000"
    by (simp add: scenario_target)
  have guard: "\<not> js_gt (Fin 60000) MAX_DIFF_MS"
    by (simp add: js_gt_def MAX_DIFF_MS_def)
  have diff_without: "diff scenario_parse (Fin 1714557600000) occurrence_without_id = Fin 60000"
    by (simp add: diff_def getTime_def scenario_parse_def occurrence_without_id_def toDouble_def)
  have m1: "matchOccurrence scenario_parse (Fin 1714557600000) [occurrence1, occurrence2]
              = (Some occurrence1, Fin 60000)"
    by (simp del: matchLoop.simps(2) add: matchOccurrence_def matchLoop_step scenario_diffs)
  have m2: "matchOccurrence scenario_parse (Fin 1714557600000) [] = (None, PosInf)"
    by (simp add: matchOccurrence_def)
  have m3: "matchOccurrence_static scenario_parse (Fin 1714557600000) [occurrence_without_id]
              = (Some occurrence_without_id, Fin 60000)"
    by (simp del: matchLoop_static.simps(2)
          add: matchOccurrence_static_def matchLoop_static_step diff_without)
  have u3: "regUrl_static ?M (Some occurrence_without_id)
              = ''https://api.zoom.us/v2/meetings/85746065/registrants?occurrence_ids=undefined''"
    by code_simp
  have reg1: "answers (scenario_fetch (Some [occurrence1, occurrence2]))
          (registrationRequest (regUrl ?M (Some occurrence1)) ''tok'' (regBody ?b)) ?regData"
    by (intro scenario_registration) (simp_all add: scenario_env_values scenario_urls)
  have reg2: "answers (scenario_fetch None)
          (registrationRequest (regUrl ?M None) ''tok'' (regBody ?b)) ?regData"
    by (intro scenario_registration) (simp_all add: scenario_env_values scenario_urls)
  have reg3: "answers (scenario_fetch (Some [occurrence_without_id]))
          (registrationRequest (regUrl_static ?M (Some occurrence_without_id)) ?K (regBody ?b))
          ?regData"
    by (intro scenario_registration) (simp_all add: u3)
  from success_response_fields [of scenario_parse scenario_env
      "scenario_fetch (Some [occurrence1, occurrence2])" ?req ?b "''tok''"
      "no_data\<lparr>occurrences := Some [occurrence1, occurrence2]\<rparr>"
      "Some occurrence1" "Fin 60000" ?regData]
    valid scenario_configured(1) scenario_grants [of "Some [occurrence1, occurrence2]"]
    scenario_meeting [of "Some [occurrence1, occurrence2]" "''tok''"] target m1 guard reg1
  have run1: "\<exists>r. responses (handler scenario_parse scenario_env
        (scenario_fetch (Some [occurrence1, occurrence2])) ?req) = [r] \<and> status r = 200
      \<and> sent_properties r
         = [(''success'', JBool True),
            (''join_url'', JStr ''https://zoom.us/w/1''),
            (''registrant_id'', JStr ''r1''),
            (''occurrence_id'', JStr ''1''),
            (''matched_start_time'', JStr ''2024-05-01T09:59:00Z'')]"
    by (simp add: occurrences_of_def no_data_def truthy_def toStr_def occurrence1_def)
  then obtain r1 where r1: "responses (handler scenario_parse scenario_env
        (scenario_fetch (Some [occurrence1, occurrence2])) ?req) = [r1]" "status r1 = 200"
      "sent_properties r1
         = [(''success'', JBool True),
            (''join_url'', JStr ''https://zoom.us/w/1''),
            (''registrant_id'', JStr ''r1''),
            (''occurrence_id'', JStr ''1''),
            (''matched_start_time'', JStr ''2024-05-01T09:59:00Z'')]"
    by blast
  from success_response_fields [of scenario_parse scenario_env
      "scenario_fetch (Some [occurrence1, occurrence2])" ?req] r1(1,2)
  have names1: "property_names r1
               = [''success'', ''join_url'', ''registrant_id'', ''occurrence_id'',
                  ''matched_start_time'']
              \<or> property_names r1
               = [''success'', ''join_url'', ''registrant_id'', ''matched_start_time'']"
    by simp
  from success_response_fields [of scenario_parse scenario_env
      "scenario_fetch None" ?req ?b "''tok''" "no_data\<lparr>occurrences := None\<rparr>"
      None PosInf ?regData]
    valid scenario_configured(1) scenario_grants [of None]
    scenario_meeting [of None "''tok''"] target m2 reg2
  have run2: "\<exists>r. responses (handler scenario_parse scenario_env
        (scenario_fetch None) ?req) = [r] \<and> status r = 200
      \<and> sent_properties r
         = [(''success'', JBool True),
            (''join_url'', JStr ''https://zoom.us/w/1''),
            (''registrant_id'', JStr ''r1''),
            (''occurrence_id'', JStr []),
            (''matched_start_time'', JStr [])]"
    by (simp add: occurrences_of_def no_data_def truthy_def toStr_def)
  from success_response_fields [of scenario_parse scenario_env
      "scenario_fetch (Some [occurrence_without_id])" ?req ?b _
      "no_data\<lparr>occurrences := Some [occurrence_without_id]\<rparr>"
      "Some occurrence_without_id" "Fin 60000" ?regData]
    valid scenario_configured(2) scenario_meeting_static [of "Some [occurrence_without_id]"]
    target m3 reg3
  have run3: "\<exists>r. responses (handler_static scenario_parse scenario_env
        (scenario_fetch (Some [occurrence_without_id])) ?req) = [r] \<and> status r = 200
      \<and> sent_properties r
         = [(''success'', JBool True),
            (''join_url'', JStr ''https://zoom.us/w/1''),
            (''registrant_id'', JStr ''r1'')]"
    by (simp add: occurrences_of_def no_data_def truthy_def toStr_def
          occurrence_without_id_def)
  from valid scenario_configured target m1 m2 m3 guard r1 names1 run2 run3
  show ?thesis
    by (auto simp: property_names_def)
qed

theorem success_response_fields_counterexample:
  "map status (responses (handler scenario_parse scenario_env
      (scenario_fetch (Some [occurrence1, occurrence2]))
      (scenario_request ''2024-05-01T10:00:00Z''))) = [200]
   \<and> map property_names (responses (handler scenario_parse scenario_env
      (scenario_fetch (Some [occurrence1, occurrence2]))
      (scenario_request ''2024-05-01T10:00:00Z'')))
     = [ [''success'', ''join_url'', ''registrant_id'', ''occurrence_id'',
         ''matched_start_time''] ]"
  by (simp add: scenario_response property_names_def)

subsection \<open>C10: one response, successful exactly with status 200\<close>

text \<open>
  C10. For every request, environment and upstream, either Zoom handler produces exactly
  one response, as its last action. The status is 200, 400, 405 or 500, and the body's
  \<open>success\<close> property is the boolean "the status is 200": true with 200, false with
  400, 405 and 500, the responses of the \<open>catch\<close> included.
\<close>

theorem success_iff_200:
  "(\<exists>r. responses (handler parse env fetch req) = [r]
        \<and> last (handler parse env fetch req) = Respond r
        \<and> status r \<in> {200, 400, 405, 500}
        \<and> property r ''success'' = Some (JBool (status r = 200)))
   \<and> (\<exists>r. responses (handler_static parse env fetch req) = [r]
        \<and> last (handler_static parse env fetch req) = Respond r
        \<and> status r \<in> {200, 400, 405, 500}
        \<and> property r ''success'' = Some (JBool (status r = 200)))"
proof
  from handler_responses [of parse env fetch req]
  obtain r where r: "responses (handler parse env fetch req) = [r]"
      "last (handler parse env fetch req) = Respond r"
    and "r = json_reply 405 (failure ''Method not allowed'')
          \<or> (\<exists>cs. handler_try parse env fetch req = (cs, Inr r))
          \<or> (\<exists>msg. r = json_reply 500 (failure msg))"
    by blast
  then have "r = json_reply 405 (failure ''Method not allowed'')
          \<or> (\<exists>msg. r = json_reply 400 (failure msg))
          \<or> (\<exists>msg. r = json_reply 500 (failure msg))
          \<or> (\<exists>props. r = json_reply 200 ((''success'', JBool True) # props))"
    using handler_try_responses [of parse env fetch req _ r] by blast
  then have "status r \<in> {200, 400, 405, 500}
        \<and> property r ''success'' = Some (JBool (status r = 200))"
    by auto
  with r show "\<exists>r. responses (handler parse env fetch req) = [r]
        \<and> last (handler parse env fetch req) = Respond r
        \<and> status r \<in> {200, 400, 405, 500}
        \<and> property r ''success'' = Some (JBool (status r = 200))"
    by blast
next
  from handler_static_responses [of parse env fetch req]
  obtain r where r: "responses (handler_static parse env fetch req) = [r]"
      "last (handler_static parse env fetch req) = Respond r"
    and "r = json_reply 405 (failure ''Method not allowed'')
          \<or> (\<exists>cs. handler_static_try parse env fetch req = (cs, Inr r))
          \<or> (\<exists>msg. r = json_reply 500 (failure msg))"
    by blast
  then have "r = json_reply 405 (failure ''Method not allowed'')
          \<or> (\<exists>msg. r = json_reply 400 (failure msg))
          \<or> (\<exists>msg. r = json_reply 500 (failure msg))
          \<or> (\<exists>props. r = json_reply 200 ((''success'', JBool True) # props))"
    using handler_static_try_responses [of parse env fetch req _ r] by blast
  then have "status r \<in> {200, 400, 405, 500}
        \<and> property r ''success'' = Some (JBool (status r = 200))"
    by auto
  with r show "\<exists>r. responses (handler_static parse env fetch req) = [r]
        \<and> last (handler_static parse env fetch req) = Respond r
        \<and> status r \<in> {200, 400, 405, 500}
        \<and> property r ''success'' = Some (JBool (status r = 200))"
    by blast
qed

end
